theory Spec2Isabelle
  imports Main "HOL-Library.Word"
begin

section \<open>JavaScript values\<close>

text \<open>
  A JavaScript string is a sequence of 16-bit code units. ASCII literals of the source are
  written \<open>js ''...''\<close>; the few non-ASCII literals are written as code units.
\<close>

type_synonym jsstring = "16 word list"

definition js :: "string \<Rightarrow> jsstring" where
  "js s = map of_char s"

text \<open>
  The values that travel as JSON between the server, its caller and Jira, together with
  \<open>undefined\<close>. An object is the list of its own properties in insertion order.
  Numbers are modelled as integers (a JSON number with a fraction or an exponent, and
  \<open>NaN\<close>, are outside the model).
\<close>

datatype jsval =
    JUndefined
  | JNull
  | JBool bool
  | JNum int
  | JStr jsstring
  | JArr "jsval list"
  | JObj "(jsstring \<times> jsval) list"

text \<open>
  What the source can throw: a \<open>TypeError\<close> of the language (property access on
  \<open>null\<close>/\<open>undefined\<close>, iteration over a non-iterable, conversion of an object
  without a usable \<open>toString\<close>), a \<open>URIError\<close> of \<open>encodeURIComponent\<close>,
  an \<open>Error\<close> raised with a message by
  \<open>throw new Error(...)\<close>, and the failure of the HTTP client (network error or
  non-2xx status), which carries whatever the client reports.
\<close>

datatype js_error =
    TypeError
  | URIError
  | Error jsstring
  | AxiosError jsval

definition bindE :: "js_error + 'a \<Rightarrow> ('a \<Rightarrow> js_error + 'b) \<Rightarrow> js_error + 'b" where
  "bindE m f = (case m of Inl e \<Rightarrow> Inl e | Inr v \<Rightarrow> f v)"

text \<open>Truthiness (\<open>ToBoolean\<close>): what \<open>if (x)\<close>, \<open>!x\<close>, \<open>&&\<close> and \<open>||\<close> test.\<close>

fun truthy :: "jsval \<Rightarrow> bool" where
  "truthy JUndefined = False"
| "truthy JNull = False"
| "truthy (JBool b) = b"
| "truthy (JNum n) = (n \<noteq> 0)"
| "truthy (JStr s) = (s \<noteq> [])"
| "truthy (JArr xs) = True"
| "truthy (JObj kvs) = True"

text \<open>
  Property read \<open>v.k\<close>. Reading from \<open>null\<close> or \<open>undefined\<close> throws; an object
  yields its own property or \<open>undefined\<close>; every other value yields \<open>undefined\<close>.
  The functions modelled here read the keys \<open>type\<close>, \<open>content\<close>, \<open>text\<close>,
  \<open>projects\<close>, \<open>issuetypes\<close>, \<open>name\<close>, \<open>id\<close>, \<open>fields\<close>, \<open>priority\<close>,
  \<open>allowedValues\<close>, \<open>key\<close>, \<open>transitions\<close>, \<open>to\<close>, \<open>issues\<close>, \<open>summary\<close>,
  \<open>status\<close>, \<open>assignee\<close>, \<open>displayName\<close>, \<open>created\<close>, \<open>updated\<close> and
  \<open>url\<close> this way, none of which is inherited from a built-in prototype.
\<close>

fun js_get :: "jsval \<Rightarrow> jsstring \<Rightarrow> js_error + jsval" where
  "js_get JUndefined k = Inl TypeError"
| "js_get JNull k = Inl TypeError"
| "js_get (JObj kvs) k = Inr (case map_of kvs k of None \<Rightarrow> JUndefined | Some v \<Rightarrow> v)"
| "js_get v k = Inr JUndefined"

text \<open>
  The elements a \<open>for (const x of v)\<close> loop visits: those of an array, the code points
  of a string (a surrogate pair is one element); anything else is not iterable.
\<close>

fun code_points :: "jsstring \<Rightarrow> jsstring list" where
  "code_points [] = []"
| "code_points [c] = [[c]]"
| "code_points (h # l # rest) =
     (if 0xD800 \<le> h \<and> h \<le> 0xDBFF \<and> 0xDC00 \<le> l \<and> l \<le> 0xDFFF
      then [h, l] # code_points rest
      else [h] # code_points (l # rest))"

fun js_iterate :: "jsval \<Rightarrow> js_error + jsval list" where
  "js_iterate (JArr xs) = Inr xs"
| "js_iterate (JStr s) = Inr (map JStr (code_points s))"
| "js_iterate v = Inl TypeError"

text \<open>Decimal rendering of an integer, as \<open>Number.prototype.toString\<close> prints it.\<close>

fun digits :: "nat \<Rightarrow> jsstring" where
  "digits n = (if n < 10 then [of_nat (48 + n)] else digits (n div 10) @ [of_nat (48 + n mod 10)])"

definition num_to_string :: "int \<Rightarrow> jsstring" where
  "num_to_string i = (if i < 0 then js ''-'' @ digits (nat (- i)) else digits (nat i))"

text \<open>
  \<open>join\<close> of an array of strings with a separator.
\<close>

fun join :: "jsstring \<Rightarrow> jsstring list \<Rightarrow> jsstring" where
  "join sep [] = []"
| "join sep [x] = x"
| "join sep (x # y # ys) = x @ sep @ join sep (y # ys)"

text \<open>
  Conversion to a string, as string concatenation and template literals perform it.
  An array prints its elements joined by commas, \<open>null\<close> and \<open>undefined\<close> elements as
  the empty string. A plain object prints as \<open>[object Object]\<close> through the inherited
  \<open>toString\<close>; when it has an own property \<open>toString\<close> (which, coming from JSON, is
  not callable) no conversion method is left and the conversion throws.
\<close>

fun to_string :: "jsval \<Rightarrow> js_error + jsstring"
  and to_string_elems :: "jsval list \<Rightarrow> js_error + jsstring list" where
  "to_string JUndefined = Inr (js ''undefined'')"
| "to_string JNull = Inr (js ''null'')"
| "to_string (JBool b) = Inr (if b then js ''true'' else js ''false'')"
| "to_string (JNum n) = Inr (num_to_string n)"
| "to_string (JStr s) = Inr s"
| "to_string (JArr xs) = bindE (to_string_elems xs) (\<lambda>ss. Inr (join (js '','') ss))"
| "to_string (JObj kvs) =
     (if js ''toString'' \<in> fst ` set kvs then Inl TypeError else Inr (js ''[object Object]''))"
| "to_string_elems [] = Inr []"
| "to_string_elems (x # xs) =
     bindE (if x = JNull \<or> x = JUndefined then Inr [] else to_string x)
       (\<lambda>s. bindE (to_string_elems xs) (\<lambda>ss. Inr (s # ss)))"

text \<open>
  \<open>String.prototype.trim\<close> strips white space and line terminators from both ends:
  TAB, LF, VT, FF, CR, SPACE, NBSP, U+1680, U+2000..U+200A, U+2028, U+2029, U+202F,
  U+205F, U+3000 and U+FEFF.
\<close>

definition is_space :: "16 word \<Rightarrow> bool" where
  "is_space c \<longleftrightarrow>
     c = 0x09 \<or> c = 0x0A \<or> c = 0x0B \<or> c = 0x0C \<or> c = 0x0D \<or> c = 0x20 \<or> c = 0xA0 \<or>
     c = 0x1680 \<or> (0x2000 \<le> c \<and> c \<le> 0x200A) \<or> c = 0x2028 \<or> c = 0x2029 \<or>
     c = 0x202F \<or> c = 0x205F \<or> c = 0x3000 \<or> c = 0xFEFF"

definition trim :: "jsstring \<Rightarrow> jsstring" where
  "trim s = rev (dropWhile is_space (rev (dropWhile is_space s)))"

section \<open>The rich-text codec\<close>

text \<open>
  The document literal that \<open>createIssue\<close>, \<open>updateIssue\<close> and \<open>addComment\<close> build
  around a text: one \<open>doc\<close> holding one \<open>paragraph\<close> holding one \<open>text\<close> node.
\<close>

definition adf_doc :: "jsstring \<Rightarrow> jsval" where
  "adf_doc t =
     JObj [(js ''type'', JStr (js ''doc'')),
           (js ''version'', JNum 1),
           (js ''content'', JArr [
              JObj [(js ''type'', JStr (js ''paragraph'')),
                    (js ''content'', JArr [
                       JObj [(js ''type'', JStr (js ''text'')),
                             (js ''text'', JStr t)]])]])]"

text \<open>
  \<open>extractDescription\<close>. The inner loop appends the \<open>text\<close> of every child whose type
  is \<open>text\<close>; the outer loop runs it on every \<open>paragraph\<close> child with a truthy
  \<open>content\<close> and appends a newline after each.
\<close>

fun paragraph_text :: "jsval list \<Rightarrow> jsstring \<Rightarrow> js_error + jsstring" where
  "paragraph_text [] text = Inr text"
| "paragraph_text (textContent # rest) text =
     bindE (js_get textContent (js ''type'')) (\<lambda>ty.
       if ty = JStr (js ''text'')
       then bindE (js_get textContent (js ''text'')) (\<lambda>t.
              bindE (to_string t) (\<lambda>s. paragraph_text rest (text @ s)))
       else paragraph_text rest text)"

fun doc_text :: "jsval list \<Rightarrow> jsstring \<Rightarrow> js_error + jsstring" where
  "doc_text [] text = Inr text"
| "doc_text (content # rest) text =
     bindE (js_get content (js ''type'')) (\<lambda>ty.
       if ty = JStr (js ''paragraph'')
       then bindE (js_get content (js ''content'')) (\<lambda>inner.
              if truthy inner
              then bindE (js_iterate inner) (\<lambda>children.
                     bindE (paragraph_text children text) (\<lambda>text'.
                       doc_text rest (text' @ js ''\<newline>'')))
              else doc_text rest text)
       else doc_text rest text)"

definition extractDescription :: "jsval \<Rightarrow> js_error + jsstring" where
  "extractDescription description =
     (if \<not> truthy description then Inr (js ''No description'')
      else bindE (js_get description (js ''type'')) (\<lambda>ty.
        bindE (js_get description (js ''content'')) (\<lambda>c.
          if ty = JStr (js ''doc'') \<and> truthy c
          then bindE (js_iterate c) (\<lambda>items.
                 bindE (doc_text items []) (\<lambda>text.
                   Inr (if trim text = [] then js ''No description'' else trim text)))
          else (case description of
                  JStr s \<Rightarrow> Inr s
                | _ \<Rightarrow> Inr (js ''No description'')))))"

section \<open>More of the language\<close>

text \<open>
  \<open>v[0]\<close>: the first element of an array, the first code unit of a string, the
  property \<open>0\<close> of an object; \<open>undefined\<close> where there is none.
\<close>

fun js_first :: "jsval \<Rightarrow> js_error + jsval" where
  "js_first JUndefined = Inl TypeError"
| "js_first JNull = Inl TypeError"
| "js_first (JArr xs) = Inr (case xs of [] \<Rightarrow> JUndefined | x # _ \<Rightarrow> x)"
| "js_first (JStr s) = Inr (case s of [] \<Rightarrow> JUndefined | c # _ \<Rightarrow> JStr [c])"
| "js_first (JObj kvs) = Inr (case map_of kvs (js ''0'') of None \<Rightarrow> JUndefined | Some v \<Rightarrow> v)"
| "js_first v = Inr JUndefined"

text \<open>
  The receiver of \<open>.find(...)\<close>, \<open>.map(...)\<close> and \<open>.join(...)\<close> must be an array:
  on any other value the method is missing (or, on an object from JSON, not callable) and
  the call throws.
\<close>

fun js_array :: "jsval \<Rightarrow> js_error + jsval list" where
  "js_array (JArr xs) = Inr xs"
| "js_array v = Inl TypeError"

text \<open>
  \<open>Array.prototype.find\<close>: the first element on which the callback is truthy, or
  \<open>undefined\<close>; a callback that throws ends the search with its error.
\<close>

fun js_find :: "(jsval \<Rightarrow> js_error + bool) \<Rightarrow> jsval list \<Rightarrow> js_error + jsval" where
  "js_find p [] = Inr JUndefined"
| "js_find p (x # xs) = bindE (p x) (\<lambda>b. if b then Inr x else js_find p xs)"

fun js_map :: "(jsval \<Rightarrow> js_error + jsval) \<Rightarrow> jsval list \<Rightarrow> js_error + jsval list" where
  "js_map f [] = Inr []"
| "js_map f (x # xs) = bindE (f x) (\<lambda>y. bindE (js_map f xs) (\<lambda>ys. Inr (y # ys)))"

definition js_join :: "jsstring \<Rightarrow> jsval list \<Rightarrow> js_error + jsstring" where
  "js_join sep xs = bindE (to_string_elems xs) (\<lambda>ss. Inr (join sep ss))"

text \<open>
  \<open>v.toLowerCase()\<close> exists on strings only. The Unicode lower-case mapping itself
  belongs to the language runtime; the model takes it as the parameter \<open>lc\<close>.
\<close>

fun toLowerCase :: "(jsstring \<Rightarrow> jsstring) \<Rightarrow> jsval \<Rightarrow> js_error + jsstring" where
  "toLowerCase lc (JStr s) = Inr (lc s)"
| "toLowerCase lc v = Inl TypeError"

text \<open>A template literal prints an absent string argument as \<open>undefined\<close>.\<close>

fun tmpl :: "jsstring option \<Rightarrow> jsstring" where
  "tmpl None = js ''undefined''"
| "tmpl (Some s) = s"

fun opt_val :: "jsstring option \<Rightarrow> jsval" where
  "opt_val None = JUndefined"
| "opt_val (Some s) = JStr s"

section \<open>Talking to Jira\<close>

record jiraConfig =
  url :: jsstring
  username :: jsstring
  apiToken :: jsstring
  defaultProject :: jsstring

datatype http_method = GET | POST | PUT

text \<open>
  The request \<open>makeJiraRequest\<close> hands to the HTTP client. The headers are left out:
  they are computed from the configuration alone and are the same on every request.
\<close>

record request =
  req_method :: http_method
  req_url :: jsstring
  req_data :: "jsval option"

record response =
  data :: jsval

text \<open>
  The HTTP client and the Jira instance behind it: given a request and the state of the
  remote world, either a response or a failure, and the next state of the world. The
  state of a run is the world together with the requests sent so far.
\<close>

type_synonym 'w remote = "request \<Rightarrow> 'w \<Rightarrow> (js_error + response) \<times> 'w"

record 'w state =
  world :: 'w
  sent :: "request list"

definition makeJiraRequest ::
  "jiraConfig \<Rightarrow> 'w remote \<Rightarrow> http_method \<Rightarrow> jsstring \<Rightarrow> jsval \<Rightarrow> 'w state
     \<Rightarrow> (js_error + response) \<times> 'w state" where
  "makeJiraRequest cfg remote m endpoint d st =
     (let config = \<lparr> req_method = m,
                      req_url = url cfg @ js ''/rest/api/3'' @ endpoint,
                      req_data = (if truthy d then Some d else None) \<rparr>;
          (r, w) = remote config (world st)
      in (r, \<lparr> world = w, sent = sent st @ [config] \<rparr>))"

section \<open>The tools\<close>

text \<open>
  The argument object of a tool call. Every property follows the type its tool's input
  schema declares; each may be absent, since the dispatcher does not check the
  \<open>required\<close> lists.
\<close>

record args =
  jql :: "jsstring option"
  maxResults :: "int option"
  issueKey :: "jsstring option"
  project :: "jsstring option"
  summary :: "jsstring option"
  description :: "jsstring option"
  issueType :: "jsstring option"
  priority :: "jsstring option"
  assignee :: "jsstring option"
  labels :: "jsstring list option"
  status :: "jsstring option"
  comment :: "jsstring option"
  projectKey :: "jsstring option"

definition no_args :: args where
  "no_args = \<lparr> jql = None, maxResults = None, issueKey = None, project = None,
               summary = None, description = None, issueType = None, priority = None,
               assignee = None, labels = None, status = None, comment = None,
               projectKey = None \<rparr>"

text \<open>What a tool returns: one text block.\<close>

definition text_result :: "jsstring \<Rightarrow> jsval" where
  "text_result t =
     JObj [(js ''content'', JArr [JObj [(js ''type'', JStr (js ''text'')), (js ''text'', JStr t)]])]"

text \<open>Assignment \<open>obj.k = v\<close> of a property to an object.\<close>

definition set_prop :: "(jsstring \<times> jsval) list \<Rightarrow> jsstring \<Rightarrow> jsval \<Rightarrow> (jsstring \<times> jsval) list" where
  "set_prop kvs k v =
     (if k \<in> fst ` set kvs then map (\<lambda>(k', v'). if k' = k then (k', v) else (k', v')) kvs
      else kvs @ [(k, v)])"

subsection \<open>createIssue\<close>

text \<open>The callback of both \<open>find\<close> calls: \<open>x.name.toLowerCase() === wanted.toLowerCase()\<close>.\<close>

definition name_matches :: "(jsstring \<Rightarrow> jsstring) \<Rightarrow> jsstring \<Rightarrow> jsval \<Rightarrow> js_error + bool" where
  "name_matches lc wanted x =
     bindE (js_get x (js ''name'')) (\<lambda>n.
       bindE (toLowerCase lc n) (\<lambda>l. Inr (l = lc wanted)))"

text \<open>
  The part of \<open>createIssue\<close> between the metadata response and the POST, in the three
  steps the source marks with its comments. First, find the issue type: the first entry
  of \<open>projects[0].issuetypes\<close> whose name matches, or the error that lists the names.
\<close>

definition findIssueType ::
  "(jsstring \<Rightarrow> jsstring) \<Rightarrow> args \<Rightarrow> response \<Rightarrow> js_error + jsval" where
  "findIssueType lc a projectMetaResponse =
     (let project = project a;
          issueType = (case issueType a of None \<Rightarrow> [0xC791, 0xC5C5] | Some t \<Rightarrow> t)
      in
      bindE (js_get (data projectMetaResponse) (js ''projects'')) (\<lambda>projects.
      bindE (js_first projects) (\<lambda>projectMeta.
      if \<not> truthy projectMeta
      then Inl (Error (js ''Unable to get metadata for project '' @ tmpl project))
      else
      bindE (js_get projectMeta (js ''issuetypes'')) (\<lambda>issuetypes.
      bindE (js_array issuetypes) (\<lambda>types.
      bindE (js_find (name_matches lc issueType) types) (\<lambda>issueTypeObj.
      if \<not> truthy issueTypeObj
      then bindE (js_map (\<lambda>type. js_get type (js ''name'')) types) (\<lambda>names.
           bindE (js_join (js '', '') names) (\<lambda>availableTypes.
             Inl (Error (js ''Issue type '' @ [0x22] @ issueType @ [0x22]
                         @ js '' not found. Available types: '' @ availableTypes))))
      else Inr issueTypeObj))))))"

text \<open>
  Second, add the priority if the field is available: only when the issue type declares
  a \<open>priority\<close> field and one of its allowed values matches the requested name.
\<close>

definition addPriority ::
  "(jsstring \<Rightarrow> jsstring) \<Rightarrow> jsval \<Rightarrow> jsstring \<Rightarrow> (jsstring \<times> jsval) list
     \<Rightarrow> js_error + (jsstring \<times> jsval) list" where
  "addPriority lc issueTypeObj wanted fields1 =
     bindE (js_get issueTypeObj (js ''fields'')) (\<lambda>typeFields.
     bindE (js_get typeFields (js ''priority'')) (\<lambda>priorityField.
     if truthy priorityField \<and> wanted \<noteq> []
     then bindE (js_get priorityField (js ''allowedValues'')) (\<lambda>av.
          bindE (js_array (if truthy av then av else JArr [])) (\<lambda>allowedPriorities.
          bindE (js_find (name_matches lc wanted) allowedPriorities) (\<lambda>priorityObj.
            if truthy priorityObj
            then bindE (js_get priorityObj (js ''id'')) (\<lambda>pid.
                   Inr (set_prop fields1 (js ''priority'') (JObj [(js ''id'', pid)])))
            else Inr fields1)))
     else Inr fields1))"

text \<open>
  Third, the request body \<open>issueData\<close>: project, summary and issue type, then
  description, priority, assignee and labels, each only under its test.
\<close>

definition issueData ::
  "(jsstring \<Rightarrow> jsstring) \<Rightarrow> args \<Rightarrow> response \<Rightarrow> js_error + jsval" where
  "issueData lc a projectMetaResponse =
     (let project = project a;
          summary = summary a;
          description = (case description a of None \<Rightarrow> [] | Some d \<Rightarrow> d);
          priority = (case priority a of None \<Rightarrow> js ''Medium'' | Some p \<Rightarrow> p);
          assignee = assignee a;
          labels = labels a
      in
      bindE (findIssueType lc a projectMetaResponse) (\<lambda>issueTypeObj.
      bindE (js_get issueTypeObj (js ''id'')) (\<lambda>typeId.
      let fields0 = [(js ''project'', JObj [(js ''key'', opt_val project)]),
                     (js ''summary'', opt_val summary),
                     (js ''issuetype'', JObj [(js ''id'', typeId)])];
          fields1 = (if description \<noteq> []
                     then set_prop fields0 (js ''description'') (adf_doc description)
                     else fields0)
      in
      bindE (addPriority lc issueTypeObj priority fields1) (\<lambda>fields2.
      let fields3 = (if truthy (opt_val assignee)
                     then set_prop fields2 (js ''assignee'')
                            (JObj [(js ''emailAddress'', opt_val assignee)])
                     else fields2);
          fields4 = (case labels of
                       None \<Rightarrow> fields3
                     | Some ls \<Rightarrow> set_prop fields3 (js ''labels'') (JArr (map JStr ls)))
      in Inr (JObj [(js ''fields'', JObj fields4)])))))"

definition createIssue ::
  "(jsstring \<Rightarrow> jsstring) \<Rightarrow> jiraConfig \<Rightarrow> 'w remote \<Rightarrow> args \<Rightarrow> 'w state
     \<Rightarrow> (js_error + jsval) \<times> 'w state" where
  "createIssue lc cfg remote a st =
     (let project = project a;
          summary = summary a;
          issueType = (case issueType a of None \<Rightarrow> [0xC791, 0xC5C5] | Some t \<Rightarrow> t);
          priority = (case priority a of None \<Rightarrow> js ''Medium'' | Some p \<Rightarrow> p)
      in
      case makeJiraRequest cfg remote GET (js ''/project/'' @ tmpl project) JNull st of
        (Inl e, st1) \<Rightarrow>
          (Inl (Error (js ''Project '' @ tmpl project @ js '' not found or not accessible'')), st1)
      | (Inr r, st1) \<Rightarrow>
      (case makeJiraRequest cfg remote GET
              (js ''/issue/createmeta?projectKeys='' @ tmpl project
               @ js ''&expand=projects.issuetypes.fields'') JNull st1 of
        (Inl e, st2) \<Rightarrow> (Inl e, st2)
      | (Inr projectMetaResponse, st2) \<Rightarrow>
      (case issueData lc a projectMetaResponse of
        Inl e \<Rightarrow> (Inl e, st2)
      | Inr body \<Rightarrow>
      (case makeJiraRequest cfg remote POST (js ''/issue'') body st2 of
        (Inl e, st3) \<Rightarrow> (Inl e, st3)
      | (Inr resp, st3) \<Rightarrow>
          (bindE (js_get (data resp) (js ''key'')) (\<lambda>k.
           bindE (to_string k) (\<lambda>issueKey.
           let issueUrl = url cfg @ js ''/browse/'' @ issueKey
           in Inr (text_result
                ([0x2705] @ js '' Successfully created issue: **'' @ issueKey @ js ''**\<newline>''
                 @ js ''Summary: '' @ tmpl summary @ js ''\<newline>''
                 @ js ''Type: '' @ issueType @ js ''\<newline>''
                 @ js ''Priority: '' @ priority @ js ''\<newline>''
                 @ js ''Project: '' @ tmpl project @ js ''\<newline>''
                 @ js ''URL: '' @ issueUrl)))), st3)))))"

subsection \<open>updateIssue\<close>

definition updateIssue ::
  "jiraConfig \<Rightarrow> 'w remote \<Rightarrow> args \<Rightarrow> 'w state \<Rightarrow> (js_error + jsval) \<times> 'w state" where
  "updateIssue cfg remote a st =
     (let issueKey = issueKey a;
          summary = summary a;
          description = description a;
          assignee = assignee a;
          priority = priority a;
          labels = labels a;
          fields0 = [];
          fields1 = (if truthy (opt_val summary)
                     then set_prop fields0 (js ''summary'') (opt_val summary)
                     else fields0);
          fields2 = (if truthy (opt_val description)
                     then set_prop fields1 (js ''description'') (adf_doc (tmpl description))
                     else fields1);
          fields3 = (if truthy (opt_val assignee)
                     then set_prop fields2 (js ''assignee'')
                            (JObj [(js ''emailAddress'', opt_val assignee)])
                     else fields2);
          fields4 = (if truthy (opt_val priority)
                     then set_prop fields3 (js ''priority'') (JObj [(js ''name'', opt_val priority)])
                     else fields3);
          fields5 = (case labels of
                       None \<Rightarrow> fields4
                     | Some ls \<Rightarrow> set_prop fields4 (js ''labels'') (JArr (map JStr ls)));
          updateData = JObj [(js ''fields'', JObj fields5)];
          result = text_result
            ([0x2705] @ js '' Successfully updated issue: **'' @ tmpl issueKey @ js ''**\<newline>''
             @ js ''URL: '' @ url cfg @ js ''/browse/'' @ tmpl issueKey)
      in
      if length fields5 > 0
      then (case makeJiraRequest cfg remote PUT (js ''/issue/'' @ tmpl issueKey) updateData st of
              (Inl e, st1) \<Rightarrow> (Inl e, st1)
            | (Inr r, st1) \<Rightarrow> (Inr result, st1))
      else (Inr result, st))"

subsection \<open>transitionIssue\<close>

text \<open>The callback of \<open>find\<close>: \<open>t.to.name.toLowerCase() === status.toLowerCase()\<close>.\<close>

definition to_name_matches ::
  "(jsstring \<Rightarrow> jsstring) \<Rightarrow> jsstring option \<Rightarrow> jsval \<Rightarrow> js_error + bool" where
  "to_name_matches lc wanted t =
     bindE (js_get t (js ''to'')) (\<lambda>dest.
     bindE (js_get dest (js ''name'')) (\<lambda>n.
     bindE (toLowerCase lc n) (\<lambda>l.
     bindE (toLowerCase lc (opt_val wanted)) (\<lambda>r. Inr (l = r)))))"

text \<open>
  The part of \<open>transitionIssue\<close> between the two requests: pick the transition and
  build the body of the POST, or raise the error that lists the reachable statuses.
\<close>

definition transitionData ::
  "(jsstring \<Rightarrow> jsstring) \<Rightarrow> args \<Rightarrow> response \<Rightarrow> js_error + jsval" where
  "transitionData lc a transitionsResponse =
     (let status = status a
      in
      bindE (js_get (data transitionsResponse) (js ''transitions'')) (\<lambda>ts.
      bindE (js_array ts) (\<lambda>transitions.
      bindE (js_find (to_name_matches lc status) transitions) (\<lambda>transition.
      if \<not> truthy transition
      then bindE (js_map (\<lambda>t. bindE (js_get t (js ''to'')) (\<lambda>dest. js_get dest (js ''name'')))
                    transitions) (\<lambda>names.
           bindE (js_join (js '', '') names) (\<lambda>availableStatuses.
             Inl (Error (js ''Status '' @ [0x22] @ tmpl status @ [0x22]
                         @ js '' not available. Available statuses: '' @ availableStatuses))))
      else bindE (js_get transition (js ''id'')) (\<lambda>tid.
             Inr (JObj [(js ''transition'', JObj [(js ''id'', tid)])]))))))"

definition transitionIssue ::
  "(jsstring \<Rightarrow> jsstring) \<Rightarrow> jiraConfig \<Rightarrow> 'w remote \<Rightarrow> args \<Rightarrow> 'w state
     \<Rightarrow> (js_error + jsval) \<times> 'w state" where
  "transitionIssue lc cfg remote a st =
     (let issueKey = issueKey a;
          status = status a
      in
      case makeJiraRequest cfg remote GET
             (js ''/issue/'' @ tmpl issueKey @ js ''/transitions'') JNull st of
        (Inl e, st1) \<Rightarrow> (Inl e, st1)
      | (Inr transitionsResponse, st1) \<Rightarrow>
      (case transitionData lc a transitionsResponse of
        Inl e \<Rightarrow> (Inl e, st1)
      | Inr body \<Rightarrow>
      (case makeJiraRequest cfg remote POST
              (js ''/issue/'' @ tmpl issueKey @ js ''/transitions'') body st1 of
        (Inl e, st2) \<Rightarrow> (Inl e, st2)
      | (Inr r, st2) \<Rightarrow>
          (Inr (text_result
             ([0x2705] @ js '' Successfully transitioned issue **'' @ tmpl issueKey
              @ js ''** to **'' @ tmpl status @ js ''**\<newline>''
              @ js ''URL: '' @ url cfg @ js ''/browse/'' @ tmpl issueKey)), st2))))"

subsection \<open>searchIssues and getProjectIssues\<close>

text \<open>
  \<open>encodeURIComponent\<close>: letters, digits and \<open>- _ . ! ~ * ' ( )\<close> stay; every other
  code point becomes the percent-escaped bytes of its UTF-8 encoding; a surrogate that is
  not part of a pair throws.
\<close>

definition unreserved :: "16 word \<Rightarrow> bool" where
  "unreserved c \<longleftrightarrow>
     (0x41 \<le> c \<and> c \<le> 0x5A) \<or> (0x61 \<le> c \<and> c \<le> 0x7A) \<or> (0x30 \<le> c \<and> c \<le> 0x39) \<or>
     c = 0x2D \<or> c = 0x5F \<or> c = 0x2E \<or> c = 0x21 \<or> c = 0x7E \<or> c = 0x2A \<or> c = 0x27 \<or>
     c = 0x28 \<or> c = 0x29"

definition hex_digit :: "nat \<Rightarrow> 16 word" where
  "hex_digit n = (if n < 10 then of_nat (48 + n) else of_nat (55 + n))"

definition percent :: "nat \<Rightarrow> jsstring" where
  "percent b = [0x25, hex_digit (b div 16), hex_digit (b mod 16)]"

definition utf8 :: "nat \<Rightarrow> nat list" where
  "utf8 cp =
     (if cp < 0x80 then [cp]
      else if cp < 0x800 then [0xC0 + cp div 64, 0x80 + cp mod 64]
      else if cp < 0x10000 then [0xE0 + cp div 4096, 0x80 + (cp div 64) mod 64, 0x80 + cp mod 64]
      else [0xF0 + cp div 262144, 0x80 + (cp div 4096) mod 64, 0x80 + (cp div 64) mod 64,
            0x80 + cp mod 64])"

fun encodeURIComponent :: "jsstring \<Rightarrow> js_error + jsstring" where
  "encodeURIComponent [] = Inr []"
| "encodeURIComponent (c # rest) =
     (if unreserved c then bindE (encodeURIComponent rest) (\<lambda>r. Inr (c # r))
      else if 0xDC00 \<le> c \<and> c \<le> 0xDFFF then Inl URIError
      else if 0xD800 \<le> c \<and> c \<le> 0xDBFF then
        (case rest of
           [] \<Rightarrow> Inl URIError
         | l # rest' \<Rightarrow>
             if 0xDC00 \<le> l \<and> l \<le> 0xDFFF
             then bindE (encodeURIComponent rest') (\<lambda>r.
                    Inr (concat (map percent
                           (utf8 (0x10000 + (unat c - 0xD800) * 0x400 + (unat l - 0xDC00)))) @ r))
             else Inl URIError)
      else bindE (encodeURIComponent rest) (\<lambda>r. Inr (concat (map percent (utf8 (unat c))) @ r)))"

text \<open>\<open>x?.k\<close> and \<open>x || y\<close>.\<close>

definition js_get_opt :: "jsval \<Rightarrow> jsstring \<Rightarrow> jsval" where
  "js_get_opt v k =
     (case js_get v k of Inl e \<Rightarrow> JUndefined | Inr x \<Rightarrow> x)"

definition js_or :: "jsval \<Rightarrow> jsval \<Rightarrow> jsval" where
  "js_or x y = (if truthy x then x else y)"

text \<open>The two callbacks of \<open>searchIssues\<close>: the projection of an issue, and its lines.\<close>

definition search_project :: "jiraConfig \<Rightarrow> jsval \<Rightarrow> js_error + jsval" where
  "search_project cfg issue =
     bindE (js_get issue (js ''key'')) (\<lambda>k.
     bindE (js_get issue (js ''fields'')) (\<lambda>fields.
     bindE (js_get fields (js ''summary'')) (\<lambda>summ.
     bindE (js_get fields (js ''status'')) (\<lambda>stat.
     bindE (js_get stat (js ''name'')) (\<lambda>statName.
     bindE (js_get fields (js ''assignee'')) (\<lambda>assg.
     bindE (js_get fields (js ''priority'')) (\<lambda>prio.
     bindE (js_get fields (js ''created'')) (\<lambda>created.
     bindE (js_get fields (js ''updated'')) (\<lambda>updated.
     bindE (to_string k) (\<lambda>ks.
       Inr (JObj [(js ''key'', k),
                  (js ''summary'', summ),
                  (js ''status'', statName),
                  (js ''assignee'', js_or (js_get_opt assg (js ''displayName'')) (JStr (js ''Unassigned''))),
                  (js ''priority'', js_or (js_get_opt prio (js ''name'')) (JStr (js ''None''))),
                  (js ''created'', created),
                  (js ''updated'', updated),
                  (js ''url'', JStr (url cfg @ js ''/browse/'' @ ks))])))))))))))"

definition search_line :: "jsval \<Rightarrow> js_error + jsval" where
  "search_line issue =
     bindE (js_get issue (js ''key'')) (\<lambda>k. bindE (to_string k) (\<lambda>ks.
     bindE (js_get issue (js ''summary'')) (\<lambda>s. bindE (to_string s) (\<lambda>ss.
     bindE (js_get issue (js ''status'')) (\<lambda>t. bindE (to_string t) (\<lambda>ts.
     bindE (js_get issue (js ''assignee'')) (\<lambda>g. bindE (to_string g) (\<lambda>gs.
     bindE (js_get issue (js ''priority'')) (\<lambda>p. bindE (to_string p) (\<lambda>ps.
     bindE (js_get issue (js ''url'')) (\<lambda>u. bindE (to_string u) (\<lambda>us.
       Inr (JStr (js ''**'' @ ks @ js ''**: '' @ ss @ js ''\<newline>''
                  @ js ''Status: '' @ ts @ js '' | Assignee: '' @ gs @ js '' | Priority: '' @ ps
                  @ js ''\<newline>''
                  @ js ''URL: '' @ us @ js ''\<newline>''))))))))))))))"

definition searchIssues ::
  "jiraConfig \<Rightarrow> 'w remote \<Rightarrow> args \<Rightarrow> 'w state \<Rightarrow> (js_error + jsval) \<times> 'w state" where
  "searchIssues cfg remote a st =
     (let jql = jql a;
          maxResults = (case maxResults a of None \<Rightarrow> 50 | Some n \<Rightarrow> n)
      in
      case encodeURIComponent (tmpl jql) of
        Inl e \<Rightarrow> (Inl e, st)
      | Inr q \<Rightarrow>
      (case makeJiraRequest cfg remote GET
              (js ''/search?jql='' @ q @ js ''&maxResults='' @ num_to_string maxResults
               @ js ''&fields=summary,status,assignee,priority,created,updated,description'')
              JNull st of
        (Inl e, st1) \<Rightarrow> (Inl e, st1)
      | (Inr resp, st1) \<Rightarrow>
          (bindE (js_get (data resp) (js ''issues'')) (\<lambda>is.
           bindE (js_array is) (\<lambda>raw.
           bindE (js_map (search_project cfg) raw) (\<lambda>issues.
           bindE (js_map search_line issues) (\<lambda>lines.
           bindE (js_join (js ''\<newline>'') lines) (\<lambda>body.
             Inr (text_result
                    (js ''Found '' @ num_to_string (int (length issues)) @ js '' issues:\<newline>\<newline>''
                     @ body))))))), st1)))"

text \<open>The query that \<open>getProjectIssues\<close> puts together in its variable \<open>jql\<close>.\<close>

definition projectIssuesJql :: "args \<Rightarrow> jsstring" where
  "projectIssuesJql a =
     (let projectKey = projectKey a;
          status = status a;
          jql0 = js ''project = '' @ tmpl projectKey;
          jql1 = (if truthy (opt_val status)
                  then jql0 @ js '' AND status = '' @ [0x22] @ tmpl status @ [0x22]
                  else jql0)
      in jql1 @ js '' ORDER BY created DESC'')"

definition getProjectIssues ::
  "jiraConfig \<Rightarrow> 'w remote \<Rightarrow> args \<Rightarrow> 'w state \<Rightarrow> (js_error + jsval) \<times> 'w state" where
  "getProjectIssues cfg remote a st =
     (let maxResults = (case maxResults a of None \<Rightarrow> 50 | Some n \<Rightarrow> n);
          jql = projectIssuesJql a
      in searchIssues cfg remote (no_args \<lparr> jql := Some jql, maxResults := Some maxResults \<rparr>) st)"

subsection \<open>Shapes of documents\<close>

text \<open>
  Predicates on values, used to state on which inputs \<open>extractDescription\<close> returns:
  a paragraph node; a child that is an object and, when it is a \<open>text\<close> node, carries a
  string; a block that is an object and, when it is a paragraph with content, holds an
  array of such children; a document whose content is an array of such blocks.
\<close>

fun is_paragraph :: "jsval \<Rightarrow> bool" where
  "is_paragraph (JObj kvs) = (map_of kvs (js ''type'') = Some (JStr (js ''paragraph'')))"
| "is_paragraph v = False"

fun child_ok :: "jsval \<Rightarrow> bool" where
  "child_ok (JObj kvs) =
     (if map_of kvs (js ''type'') = Some (JStr (js ''text''))
      then (case map_of kvs (js ''text'') of Some (JStr s) \<Rightarrow> True | _ \<Rightarrow> False)
      else True)"
| "child_ok v = False"

fun block_ok :: "jsval \<Rightarrow> bool" where
  "block_ok (JObj kvs) =
     (if map_of kvs (js ''type'') = Some (JStr (js ''paragraph''))
      then (case map_of kvs (js ''content'') of
              None \<Rightarrow> True
            | Some (JArr ys) \<Rightarrow> list_all child_ok ys
            | Some v \<Rightarrow> \<not> truthy v)
      else True)"
| "block_ok v = False"

fun doc_ok :: "jsval \<Rightarrow> bool" where
  "doc_ok (JObj kvs) =
     (map_of kvs (js ''type'') = Some (JStr (js ''doc'')) \<and>
      (case map_of kvs (js ''content'') of
         Some (JArr xs) \<Rightarrow> list_all block_ok xs
       | _ \<Rightarrow> False))"
| "doc_ok v = False"

subsection \<open>A lower-case mapping for examples\<close>

text \<open>
  \<open>toLowerCase\<close> on strings of ASCII characters: the letters \<open>A\<close> to \<open>Z\<close> move to
  \<open>a\<close> to \<open>z\<close>. The examples below instantiate the parameter \<open>lc\<close> with it.
\<close>

definition ascii_lower :: "jsstring \<Rightarrow> jsstring" where
  "ascii_lower s = map (\<lambda>c. if 0x41 \<le> c \<and> c \<le> 0x5A then c + 0x20 else c) s"

subsection \<open>A Jira for examples\<close>

text \<open>
  A configuration, two issue types (\<open>Task\<close> with a priority field that allows
  \<open>High\<close> and \<open>Low\<close>, \<open>Bug\<close> without one), three transitions (two of them lead to
  a status called done, in different spellings), and a remote that answers every GET with
  one document holding the project metadata and the transitions, every POST with the key
  of a created issue, and every PUT with an empty body.
\<close>

definition example_cfg :: jiraConfig where
  "example_cfg = \<lparr> url = js ''https://jira.example.com'', username = js ''bot'',
                   apiToken = js ''token'', defaultProject = js ''PROJ'' \<rparr>"

definition example_priority :: "(jsstring \<times> jsval) list" where
  "example_priority =
     [(js ''required'', JBool False),
      (js ''allowedValues'',
         JArr [JObj [(js ''id'', JStr (js ''2'')), (js ''name'', JStr (js ''High''))],
               JObj [(js ''id'', JStr (js ''4'')), (js ''name'', JStr (js ''Low''))]])]"

definition example_task :: "(jsstring \<times> jsval) list" where
  "example_task =
     [(js ''id'', JStr (js ''10001'')), (js ''name'', JStr (js ''Task'')),
      (js ''fields'', JObj [(js ''priority'', JObj example_priority)])]"

definition example_bug :: "(jsstring \<times> jsval) list" where
  "example_bug =
     [(js ''id'', JStr (js ''10004'')), (js ''name'', JStr (js ''Bug'')),
      (js ''fields'', JObj [(js ''summary'', JObj [(js ''required'', JBool True)])])]"

definition example_project :: jsval where
  "example_project =
     JObj [(js ''key'', JStr (js ''PROJ'')),
           (js ''issuetypes'', JArr [JObj example_task, JObj example_bug])]"

definition example_start :: jsval where
  "example_start =
     JObj [(js ''id'', JStr (js ''11'')), (js ''name'', JStr (js ''Start'')),
           (js ''to'', JObj [(js ''name'', JStr (js ''In Progress''))])]"

definition example_finish :: "(jsstring \<times> jsval) list" where
  "example_finish =
     [(js ''id'', JStr (js ''21'')), (js ''name'', JStr (js ''Finish'')),
      (js ''to'', JObj [(js ''name'', JStr (js ''Done''))])]"

definition example_close :: jsval where
  "example_close =
     JObj [(js ''id'', JStr (js ''31'')), (js ''name'', JStr (js ''Close'')),
           (js ''to'', JObj [(js ''name'', JStr (js ''DONE''))])]"

definition example_data :: jsval where
  "example_data =
     JObj [(js ''projects'', JArr [example_project]),
           (js ''transitions'', JArr [example_start, JObj example_finish, example_close])]"

definition example_remote :: "unit remote" where
  "example_remote req w =
     (case req_method req of
        GET \<Rightarrow> (Inr \<lparr> data = example_data \<rparr>, w)
      | POST \<Rightarrow> (Inr \<lparr> data = JObj [(js ''id'', JStr (js ''20007'')),
                                      (js ''key'', JStr (js ''PROJ-7''))] \<rparr>, w)
      | PUT \<Rightarrow> (Inr \<lparr> data = JStr [] \<rparr>, w))"

section \<open>Basic facts\<close>

lemma js_simps [simp]: "js [] = []" "js (c # cs) = of_char c # js cs"
  by (simp_all add: js_def)

lemma bindE_simps [simp]: "bindE (Inl e) f = Inl e" "bindE (Inr v) f = f v"
  by (simp_all add: bindE_def)

section \<open>The rich-text codec\<close>

lemma trim_unchanged:
  assumes "s \<noteq> []" "\<not> is_space (hd s)" "\<not> is_space (last s)"
  shows "trim s = s"
proof -
  from assms(1,2) have a: "dropWhile is_space s = s" by (cases s) simp_all
  from assms(1,3) have b: "dropWhile is_space (rev s) = rev s"
    by (cases s rule: rev_cases) simp_all
  show ?thesis by (simp add: trim_def a b)
qed

lemma trim_newline: "trim (s @ [0x0A]) = trim s"
proof (cases "dropWhile is_space s = []")
  case True
  then have all: "\<forall>x\<in>set s. is_space x" by (simp add: dropWhile_eq_Nil_conv)
  have sp: "is_space 0x0A" by (simp add: is_space_def)
  have e: "dropWhile is_space (s @ [0x0A]) = []"
    using all sp by (simp add: dropWhile_eq_Nil_conv)
  show ?thesis unfolding trim_def e True by simp
next
  case False
  then have "dropWhile is_space (s @ [0x0A]) = dropWhile is_space s @ [0x0A]"
    by (metis dropWhile_append1 dropWhile_eq_Nil_conv)
  then show ?thesis by (simp add: trim_def is_space_def)
qed

lemma decode_adf_doc:
  "extractDescription (adf_doc s) = Inr (if trim s = [] then js ''No description'' else trim s)"
  using trim_newline[of s]
  by (simp add: extractDescription_def adf_doc_def)

text \<open>
  C6, as the specification states it, fails: \<open>trim\<close> also strips white space at the
  front of the text, so a description that starts with a blank does not come back.
\<close>

theorem C6_roundtrip_counterexample:
  "extractDescription (adf_doc (js '' a'')) = Inr (js ''a'') \<and>
   extractDescription (adf_doc (js '' a'')) \<noteq> Inr (js '' a'')"
  by (simp add: extractDescription_def adf_doc_def trim_def is_space_def)

text \<open>
  C6 (amended): decoding the document built around a text \<open>s\<close> yields \<open>s\<close> with the
  white space at both ends removed, or \<open>No description\<close> when nothing is left; so for
  every non-empty \<open>s\<close> that neither starts nor ends with a white-space character,
  decoding the encoded \<open>s\<close> yields \<open>s\<close> again.
\<close>

theorem C6_roundtrip:
  "extractDescription (adf_doc s) =
     Inr (if trim s = [] then js ''No description'' else trim s) \<and>
   (s \<noteq> [] \<and> \<not> is_space (hd s) \<and> \<not> is_space (last s)
      \<longrightarrow> extractDescription (adf_doc s) = Inr s)"
proof -
  have "extractDescription (adf_doc s) = Inr s"
    if "s \<noteq> []" "\<not> is_space (hd s)" "\<not> is_space (last s)"
    using that trim_unchanged[of s] decode_adf_doc[of s] by simp
  then show ?thesis using decode_adf_doc[of s] by blast
qed

theorem C6_roundtrip_witness:
  "js ''Fix login bug'' \<noteq> [] \<and> \<not> is_space (hd (js ''Fix login bug''))
   \<and> \<not> is_space (last (js ''Fix login bug''))
   \<and> extractDescription (adf_doc (js ''Fix login bug'')) = Inr (js ''Fix login bug'')"
proof -
  have h: "js ''Fix login bug'' \<noteq> [] \<and> \<not> is_space (hd (js ''Fix login bug''))
           \<and> \<not> is_space (last (js ''Fix login bug''))"
    by (simp add: is_space_def)
  with C6_roundtrip[of "js ''Fix login bug''"] show ?thesis by blast
qed

lemma paragraph_text_ok:
  "list_all child_ok ys \<Longrightarrow> \<exists>s. paragraph_text ys t = Inr s"
proof (induction ys arbitrary: t)
  case Nil
  then show ?case by simp
next
  case (Cons y ys)
  then obtain kvs where y: "y = JObj kvs" by (cases y) simp_all
  from Cons.prems have rest: "list_all child_ok ys" by simp
  show ?case
  proof (cases "map_of kvs (js ''type'') = Some (JStr (js ''text''))")
    case True
    with Cons.prems y obtain s where "map_of kvs (js ''text'') = Some (JStr s)"
      by (auto split: option.splits jsval.splits)
    with True y Cons.IH[OF rest] show ?thesis by simp
  next
    case False
    with y Cons.IH[OF rest] show ?thesis by (simp split: option.splits)
  qed
qed

lemma doc_text_ok:
  "list_all block_ok xs \<Longrightarrow> \<exists>s. doc_text xs t = Inr s"
proof (induction xs arbitrary: t)
  case Nil
  then show ?case by simp
next
  case (Cons x xs)
  then obtain kvs where x: "x = JObj kvs" by (cases x) simp_all
  from Cons.prems have rest: "list_all block_ok xs" by simp
  show ?case
  proof (cases "map_of kvs (js ''type'') = Some (JStr (js ''paragraph''))")
    case para: True
    show ?thesis
    proof (cases "map_of kvs (js ''content'')")
      case None
      with para x Cons.IH[OF rest] show ?thesis by simp
    next
      case (Some c)
      show ?thesis
      proof (cases "truthy c")
        case False
        with Some para x Cons.IH[OF rest] show ?thesis by simp
      next
        case True
        with Some para x Cons.prems obtain ys
          where c: "c = JArr ys" and ys: "list_all child_ok ys"
          by (cases c) auto
        from paragraph_text_ok[OF ys] obtain s where "paragraph_text ys t = Inr s" by blast
        with c Some para x Cons.IH[OF rest] show ?thesis by simp
      qed
    qed
  next
    case False
    with x Cons.IH[OF rest] show ?thesis by (auto split: option.splits)
  qed
qed

lemma doc_text_no_paragraph:
  "\<forall>x\<in>set xs. x \<noteq> JNull \<and> x \<noteq> JUndefined \<and> \<not> is_paragraph x \<Longrightarrow> doc_text xs t = Inr t"
proof (induction xs)
  case Nil
  then show ?case by simp
next
  case (Cons x xs)
  then have "x \<noteq> JNull" "x \<noteq> JUndefined" "\<not> is_paragraph x" by simp_all
  then have "\<exists>ty. js_get x (js ''type'') = Inr ty \<and> ty \<noteq> JStr (js ''paragraph'')"
    by (cases x) (auto split: option.splits)
  with Cons show ?case by auto
qed

lemma doc_ok_returns:
  assumes "doc_ok d"
  shows "\<exists>s. extractDescription d = Inr s"
proof -
  from assms obtain kvs where d: "d = JObj kvs" by (cases d) simp_all
  with assms obtain xs
    where c: "map_of kvs (js ''content'') = Some (JArr xs)"
      and xs: "list_all block_ok xs"
      and ty: "map_of kvs (js ''type'') = Some (JStr (js ''doc''))"
    by (auto split: option.splits jsval.splits)
  from doc_text_ok[OF xs] obtain s where "doc_text xs [] = Inr s" by blast
  with d c ty show ?thesis by (simp add: extractDescription_def)
qed

lemma decode_falsy: "\<not> truthy d \<Longrightarrow> extractDescription d = Inr (js ''No description'')"
  by (simp add: extractDescription_def)

lemma decode_string:
  "extractDescription (JStr s) = Inr (if s = [] then js ''No description'' else s)"
  by (simp add: extractDescription_def)

lemma decode_not_doc:
  "map_of kvs (js ''type'') \<noteq> Some (JStr (js ''doc''))
     \<Longrightarrow> extractDescription (JObj kvs) = Inr (js ''No description'')"
  by (auto simp add: extractDescription_def split: option.splits)

lemma decode_no_content:
  "\<forall>c. map_of kvs (js ''content'') = Some c \<longrightarrow> \<not> truthy c
     \<Longrightarrow> extractDescription (JObj kvs) = Inr (js ''No description'')"
  by (auto simp add: extractDescription_def split: option.splits)

lemma decode_no_paragraph:
  assumes "map_of kvs (js ''type'') = Some (JStr (js ''doc''))"
    and "map_of kvs (js ''content'') = Some (JArr items)"
    and "\<forall>x\<in>set items. x \<noteq> JNull \<and> x \<noteq> JUndefined \<and> \<not> is_paragraph x"
  shows "extractDescription (JObj kvs) = Inr (js ''No description'')"
  using assms doc_text_no_paragraph[OF assms(3), of "[]"]
  by (simp add: extractDescription_def trim_def)

text \<open>
  C7, as the specification states it, fails: a document whose content holds \<open>null\<close>
  makes the loop read a property of \<open>null\<close>, and the function throws.
\<close>

theorem C7_decode_total_counterexample:
  "extractDescription
     (JObj [(js ''type'', JStr (js ''doc'')), (js ''content'', JArr [JNull])]) = Inl TypeError"
  by (simp add: extractDescription_def)

text \<open>
  C7 (amended): \<open>extractDescription\<close> returns without throwing, and returns the original
  string or the fallback \<open>No description\<close>, on every falsy value (\<open>null\<close>,
  \<open>undefined\<close>, the empty string), on every string, number, boolean and array, on every
  object that is not a \<open>doc\<close>, on every \<open>doc\<close> whose content is absent or falsy
  (an empty document), and on every \<open>doc\<close> whose content is an array of values other than
  \<open>null\<close> and \<open>undefined\<close> none of which is a paragraph. It also returns without
  throwing on every document whose content is an array of objects in which each paragraph
  with content holds an array of objects whose \<open>text\<close> nodes carry strings.
\<close>

theorem C7_decode_total:
  "(\<not> truthy d0 \<longrightarrow> extractDescription d0 = Inr (js ''No description'')) \<and>
   extractDescription (JStr s) = Inr (if s = [] then js ''No description'' else s) \<and>
   extractDescription (JNum n) = Inr (js ''No description'') \<and>
   extractDescription (JBool b) = Inr (js ''No description'') \<and>
   extractDescription (JArr xs) = Inr (js ''No description'') \<and>
   (map_of kvs1 (js ''type'') \<noteq> Some (JStr (js ''doc''))
      \<longrightarrow> extractDescription (JObj kvs1) = Inr (js ''No description'')) \<and>
   ((\<forall>c. map_of kvs2 (js ''content'') = Some c \<longrightarrow> \<not> truthy c)
      \<longrightarrow> extractDescription (JObj kvs2) = Inr (js ''No description'')) \<and>
   (map_of kvs3 (js ''type'') = Some (JStr (js ''doc'')) \<and>
    map_of kvs3 (js ''content'') = Some (JArr items) \<and>
    (\<forall>x\<in>set items. x \<noteq> JNull \<and> x \<noteq> JUndefined \<and> \<not> is_paragraph x)
      \<longrightarrow> extractDescription (JObj kvs3) = Inr (js ''No description'')) \<and>
   (doc_ok d \<longrightarrow> (\<exists>t. extractDescription d = Inr t))"
proof -
  have num: "extractDescription (JNum n) = Inr (js ''No description'')"
    by (simp add: extractDescription_def)
  have bool: "extractDescription (JBool b) = Inr (js ''No description'')"
    by (simp add: extractDescription_def)
  have arr: "extractDescription (JArr xs) = Inr (js ''No description'')"
    by (simp add: extractDescription_def)
  show ?thesis
    using decode_falsy[of d0] decode_string[of s] num bool arr decode_not_doc[of kvs1]
      decode_no_content[of kvs2] decode_no_paragraph[of kvs3 items] doc_ok_returns[of d]
    by blast
qed

theorem C7_decode_total_witness:
  "\<not> truthy JNull \<and> extractDescription JNull = Inr (js ''No description'') \<and>
   extractDescription (JStr (js ''plain'')) = Inr (js ''plain'') \<and>
   map_of [(js ''type'', JStr (js ''issue''))] (js ''type'') \<noteq> Some (JStr (js ''doc'')) \<and>
   extractDescription (JObj [(js ''type'', JStr (js ''issue''))]) = Inr (js ''No description'') \<and>
   map_of [(js ''type'', JStr (js ''doc''))] (js ''content'') = None \<and>
   extractDescription (JObj [(js ''type'', JStr (js ''doc''))]) = Inr (js ''No description'') \<and>
   \<not> is_paragraph (JObj [(js ''type'', JStr (js ''rule''))]) \<and>
   extractDescription
     (JObj [(js ''type'', JStr (js ''doc'')),
            (js ''content'', JArr [JObj [(js ''type'', JStr (js ''rule''))]])])
     = Inr (js ''No description'') \<and>
   doc_ok (adf_doc (js ''hello'')) \<and>
   (\<exists>t. extractDescription (adf_doc (js ''hello'')) = Inr t)"
proof -
  have h1: "\<not> truthy JNull" by simp
  have h2: "map_of [(js ''type'', JStr (js ''issue''))] (js ''type'') \<noteq> Some (JStr (js ''doc''))"
    by simp
  have h3: "\<forall>c. map_of [(js ''type'', JStr (js ''doc''))] (js ''content'') = Some c \<longrightarrow> \<not> truthy c"
    by simp
  have h4: "map_of [(js ''type'', JStr (js ''doc'')),
                    (js ''content'', JArr [JObj [(js ''type'', JStr (js ''rule''))]])] (js ''type'')
              = Some (JStr (js ''doc'')) \<and>
            map_of [(js ''type'', JStr (js ''doc'')),
                    (js ''content'', JArr [JObj [(js ''type'', JStr (js ''rule''))]])] (js ''content'')
              = Some (JArr [JObj [(js ''type'', JStr (js ''rule''))]]) \<and>
            (\<forall>x\<in>set [JObj [(js ''type'', JStr (js ''rule''))]].
               x \<noteq> JNull \<and> x \<noteq> JUndefined \<and> \<not> is_paragraph x)"
    by simp
  have h5: "doc_ok (adf_doc (js ''hello''))" by (simp add: adf_doc_def)
  show ?thesis
    using h1 h2 h3 h4 h5
      C7_decode_total[of JNull "js ''plain''" 0 True "[]" "[(js ''type'', JStr (js ''issue''))]"
        "[(js ''type'', JStr (js ''doc''))]"
        "[(js ''type'', JStr (js ''doc'')),
          (js ''content'', JArr [JObj [(js ''type'', JStr (js ''rule''))]])]"
        "[JObj [(js ''type'', JStr (js ''rule''))]]" "adf_doc (js ''hello'')"]
    by simp
qed

text \<open>
  C8, as the specification states it, fails on the empty string: it is falsy, so the
  first test of the function answers with the fallback.
\<close>

theorem C8_decode_string_counterexample:
  "extractDescription (JStr []) = Inr (js ''No description'') \<and>
   extractDescription (JStr []) \<noteq> Inr []"
  by (simp add: extractDescription_def)

text \<open>
  C8 (amended): for every non-empty plain-string input, \<open>extractDescription\<close> returns
  that string unchanged.
\<close>

theorem C8_decode_string:
  "s \<noteq> [] \<Longrightarrow> extractDescription (JStr s) = Inr s"
  by (simp add: extractDescription_def)

theorem C8_decode_string_witness:
  "js ''Fix login bug'' \<noteq> [] \<and>
   extractDescription (JStr (js ''Fix login bug'')) = Inr (js ''Fix login bug'')"
proof -
  have h: "js ''Fix login bug'' \<noteq> []" by simp
  from C8_decode_string[OF h] h show ?thesis by simp
qed

section \<open>Objects, arrays and requests\<close>

lemma map_fst_update:
  "map fst (map (\<lambda>(k', v'). if k' = k then (k', v) else (k', v')) kvs) = map fst kvs"
  by (induction kvs) auto

lemma keys_set_prop: "fst ` set (set_prop kvs k v) = insert k (fst ` set kvs)"
proof (cases "k \<in> fst ` set kvs")
  case True
  have "fst ` set (set_prop kvs k v) = set (map fst (set_prop kvs k v))" by simp
  also have "\<dots> = set (map fst kvs)"
    using True by (simp only: set_prop_def if_True map_fst_update)
  finally show ?thesis using True by auto
next
  case False
  then show ?thesis by (simp add: set_prop_def)
qed

lemma set_prop_not_Nil: "set_prop kvs k v \<noteq> []"
  by (cases kvs) (auto simp: set_prop_def)

lemma makeJiraRequest_state:
  "snd (makeJiraRequest cfg remote m endpoint d st) =
     \<lparr> world = snd (remote \<lparr> req_method = m, req_url = url cfg @ js ''/rest/api/3'' @ endpoint,
                                req_data = (if truthy d then Some d else None) \<rparr> (world st)),
       sent = sent st @ [\<lparr> req_method = m, req_url = url cfg @ js ''/rest/api/3'' @ endpoint,
                            req_data = (if truthy d then Some d else None) \<rparr>] \<rparr>"
  by (simp add: makeJiraRequest_def Let_def split_beta del: js_simps)

lemma makeJiraRequest_result:
  "fst (makeJiraRequest cfg remote m endpoint d st) =
     fst (remote \<lparr> req_method = m, req_url = url cfg @ js ''/rest/api/3'' @ endpoint,
                   req_data = (if truthy d then Some d else None) \<rparr> (world st))"
  by (simp add: makeJiraRequest_def Let_def split_beta del: js_simps)

lemma snd_case_result:
  "snd (case p of (Inl e, s) \<Rightarrow> (Inl e, s) | (Inr r, s) \<Rightarrow> (f r, s)) = snd p"
  by (cases p; cases "fst p") auto

lemma js_find_skip:
  "\<forall>x\<in>set pre. p x = Inr False \<Longrightarrow> js_find p (pre @ xs) = js_find p xs"
  by (induction pre) simp_all

lemma js_find_none:
  "\<forall>x\<in>set xs. p x = Inr False \<Longrightarrow> js_find p xs = Inr JUndefined"
  by (induction xs) simp_all

lemma js_find_first:
  assumes "\<forall>x\<in>set pre. p x = Inr False" and "p x = Inr True"
  shows "js_find p (pre @ x # post) = Inr x"
  using assms by (simp add: js_find_skip)

lemma js_map_all:
  "map f xs = map Inr ys \<Longrightarrow> js_map f xs = Inr ys"
proof (induction xs arbitrary: ys)
  case Nil
  then show ?case by simp
next
  case (Cons x xs)
  then obtain y ys' where ys: "ys = y # ys'" by (cases ys) auto
  with Cons.prems have "f x = Inr y" "map f xs = map Inr ys'" by simp_all
  with Cons.IH[of ys'] ys show ?case by simp
qed

lemma to_string_elems_strings: "to_string_elems (map JStr ns) = Inr ns"
  by (induction ns) simp_all

lemma js_join_strings: "js_join sep (map JStr ns) = Inr (join sep ns)"
  by (simp add: js_join_def to_string_elems_strings)

section \<open>createIssue\<close>

lemma names_no_match:
  assumes "map (\<lambda>t. js_get t (js ''name'')) types = map (\<lambda>n. Inr (JStr n)) names"
    and "\<forall>n\<in>set names. lc n \<noteq> lc wanted"
  shows "\<forall>t\<in>set types. name_matches lc wanted t = Inr False"
proof
  fix t assume "t \<in> set types"
  then have "js_get t (js ''name'') \<in> set (map (\<lambda>t. js_get t (js ''name'')) types)" by simp
  with assms(1) obtain n where "n \<in> set names" "js_get t (js ''name'') = Inr (JStr n)" by auto
  with assms(2) show "name_matches lc wanted t = Inr False"
    by (simp add: name_matches_def del: js_simps)
qed

lemma findIssueType_none:
  assumes "js_get (data metaR) (js ''projects'') = Inr ps"
    and "js_first ps = Inr pm" and "truthy pm"
    and "js_get pm (js ''issuetypes'') = Inr (JArr types)"
    and "map (\<lambda>t. js_get t (js ''name'')) types = map (\<lambda>n. Inr (JStr n)) names"
    and "\<forall>n\<in>set names. lc n \<noteq> lc wanted"
    and "wanted = (case issueType a of None \<Rightarrow> [0xC791, 0xC5C5] | Some t \<Rightarrow> t)"
  shows "findIssueType lc a metaR =
           Inl (Error (js ''Issue type '' @ [0x22] @ wanted @ [0x22]
                       @ js '' not found. Available types: '' @ join (js '', '') names))"
proof -
  have f: "js_find (name_matches lc wanted) types = Inr JUndefined"
    using names_no_match[OF assms(5,6)] by (rule js_find_none)
  have m: "js_map (\<lambda>t. js_get t (js ''name'')) types = Inr (map JStr names)"
    using assms(5) by (intro js_map_all) simp
  show ?thesis
    unfolding findIssueType_def Let_def assms(7)[symmetric]
    by (simp add: assms(1-4) f m js_join_strings del: js_simps)
qed

lemma name_matches_hit:
  "js_get t (js ''name'') = Inr (JStr n) \<Longrightarrow> lc n = lc wanted
     \<Longrightarrow> name_matches lc wanted t = Inr True"
  by (simp add: name_matches_def del: js_simps)

lemma findIssueType_first:
  assumes "js_get (data metaR) (js ''projects'') = Inr ps"
    and "js_first ps = Inr pm" and "truthy pm"
    and "js_get pm (js ''issuetypes'') = Inr (JArr (pre @ JObj ty # post))"
    and "map (\<lambda>t. js_get t (js ''name'')) pre = map (\<lambda>n. Inr (JStr n)) prenames"
    and "\<forall>n\<in>set prenames. lc n \<noteq> lc wanted"
    and "map_of ty (js ''name'') = Some (JStr n)" and "lc n = lc wanted"
    and "wanted = (case issueType a of None \<Rightarrow> [0xC791, 0xC5C5] | Some t \<Rightarrow> t)"
  shows "findIssueType lc a metaR = Inr (JObj ty)"
proof -
  have nm: "js_get (JObj ty) (js ''name'') = Inr (JStr n)"
    using assms(7) by (simp del: js_simps)
  have f: "js_find (name_matches lc wanted) (pre @ JObj ty # post) = Inr (JObj ty)"
    using names_no_match[OF assms(5,6)] name_matches_hit[OF nm assms(8)]
    by (rule js_find_first)
  show ?thesis
    unfolding findIssueType_def Let_def assms(9)[symmetric]
    by (simp add: assms(1-4) f del: js_simps)
qed

lemma addPriority_skip:
  assumes "map_of ty (js ''fields'') = Some (JObj fs)"
    and "map_of fs (js ''priority'') = None \<or>
         (map_of fs (js ''priority'') = Some (JObj pf) \<and>
          (map_of pf (js ''allowedValues'') = None \<or>
           (map_of pf (js ''allowedValues'') = Some (JArr avs) \<and>
            map (\<lambda>p. js_get p (js ''name'')) avs = map (\<lambda>n. Inr (JStr n)) pnames \<and>
            (\<forall>n\<in>set pnames. lc n \<noteq> lc prio))))"
  shows "addPriority lc (JObj ty) prio F = Inr F"
proof -
  consider (none) "map_of fs (js ''priority'') = None"
    | (unset) "map_of fs (js ''priority'') = Some (JObj pf)"
        "map_of pf (js ''allowedValues'') = None"
    | (other) "map_of fs (js ''priority'') = Some (JObj pf)"
        "map_of pf (js ''allowedValues'') = Some (JArr avs)"
        "map (\<lambda>p. js_get p (js ''name'')) avs = map (\<lambda>n. Inr (JStr n)) pnames"
        "\<forall>n\<in>set pnames. lc n \<noteq> lc prio"
    using assms(2) by (elim disjE conjE) simp_all
  then show ?thesis
  proof cases
    case none
    then show ?thesis using assms(1) by (simp add: addPriority_def del: js_simps)
  next
    case unset
    then show ?thesis using assms(1) by (simp add: addPriority_def del: js_simps)
  next
    case other
    have "\<forall>p\<in>set avs. name_matches lc prio p = Inr False"
      using names_no_match[OF other(3,4)] .
    then have "js_find (name_matches lc prio) avs = Inr JUndefined" by (rule js_find_none)
    with other(1,2) assms(1) show ?thesis by (simp add: addPriority_def del: js_simps)
  qed
qed

text \<open>
  C1: for the call \<open>create_issue({project: "PROJ", summary: "Fix login bug", issueType:
  "Bug"})\<close>, when the issue types fetched for the project contain an entry named
  \<open>Bug\<close> with id \<open>10004\<close> whose fields declare no priority, and no entry before it
  has a name that lower-cases to the same string, the requests sent are the two GETs and
  one POST to the create endpoint whose body holds, under \<open>fields\<close>, exactly the project
  key, the summary and the issue type id: no priority key and no description key.
\<close>

theorem C1_create_bug_payload:
  assumes "a = no_args \<lparr> project := Some (js ''PROJ''), summary := Some (js ''Fix login bug''),
                          issueType := Some (js ''Bug'') \<rparr>"
    and "remote \<lparr> req_method = GET, req_url = url cfg @ js ''/rest/api/3/project/PROJ'',
                   req_data = None \<rparr> w0 = (Inr r1, w1)"
    and "remote \<lparr> req_method = GET,
                   req_url = url cfg @ js ''/rest/api/3/issue/createmeta?projectKeys=PROJ&expand=projects.issuetypes.fields'',
                   req_data = None \<rparr> w1 = (Inr metaR, w2)"
    and "js_get (data metaR) (js ''projects'') = Inr ps"
    and "js_first ps = Inr pm" and "truthy pm"
    and "js_get pm (js ''issuetypes'') = Inr (JArr (pre @ JObj bug # post))"
    and "map (\<lambda>t. js_get t (js ''name'')) pre = map (\<lambda>n. Inr (JStr n)) prenames"
    and "\<forall>n\<in>set prenames. lc n \<noteq> lc (js ''Bug'')"
    and "map_of bug (js ''name'') = Some (JStr (js ''Bug''))"
    and "map_of bug (js ''id'') = Some (JStr (js ''10004''))"
    and "map_of bug (js ''fields'') = Some (JObj fs)"
    and "map_of fs (js ''priority'') = None"
  shows "sent (snd (createIssue lc cfg remote a \<lparr> world = w0, sent = S \<rparr>)) =
           S @ [\<lparr> req_method = GET, req_url = url cfg @ js ''/rest/api/3/project/PROJ'',
                   req_data = None \<rparr>,
                \<lparr> req_method = GET,
                   req_url = url cfg @ js ''/rest/api/3/issue/createmeta?projectKeys=PROJ&expand=projects.issuetypes.fields'',
                   req_data = None \<rparr>,
                \<lparr> req_method = POST, req_url = url cfg @ js ''/rest/api/3/issue'',
                   req_data = Some (JObj [(js ''fields'',
                     JObj [(js ''project'', JObj [(js ''key'', JStr (js ''PROJ''))]),
                           (js ''summary'', JStr (js ''Fix login bug'')),
                           (js ''issuetype'', JObj [(js ''id'', JStr (js ''10004''))])])]) \<rparr>]"
proof -
  have w: "js ''Bug'' = (case issueType a of None \<Rightarrow> [0xC791, 0xC5C5] | Some t \<Rightarrow> t)"
    by (simp add: assms(1) no_args_def)
  note ft = findIssueType_first[OF assms(4-10) refl w]
  have ap: "addPriority lc (JObj bug) p F = Inr F" for p F
    using addPriority_skip[OF assms(12), of fs] assms(13) by blast
  have gid: "js_get (JObj bug) (js ''id'') = Inr (JStr (js ''10004''))"
    using assms(11) by (simp del: js_simps)
  have d: "issueData lc a metaR =
             Inr (JObj [(js ''fields'',
                     JObj [(js ''project'', JObj [(js ''key'', JStr (js ''PROJ''))]),
                           (js ''summary'', JStr (js ''Fix login bug'')),
                           (js ''issuetype'', JObj [(js ''id'', JStr (js ''10004''))])])])"
    unfolding issueData_def Let_def ft bindE_simps gid ap
    by (simp add: assms(1) no_args_def)
  obtain r3 w3 where p:
    "remote \<lparr> req_method = POST, req_url = url cfg @ js ''/rest/api/3/issue'',
              req_data = Some (JObj [(js ''fields'',
                     JObj [(js ''project'', JObj [(js ''key'', JStr (js ''PROJ''))]),
                           (js ''summary'', JStr (js ''Fix login bug'')),
                           (js ''issuetype'', JObj [(js ''id'', JStr (js ''10004''))])])]) \<rparr> w2
       = (r3, w3)"
    by (metis surj_pair)
  show ?thesis
    using assms(2,3) p d unfolding assms(1)
    by (cases r3) (simp_all add: createIssue_def makeJiraRequest_def Let_def no_args_def)
qed

theorem C1_create_bug_payload_witness:
  "sent (snd (createIssue ascii_lower example_cfg example_remote
     (no_args \<lparr> project := Some (js ''PROJ''), summary := Some (js ''Fix login bug''),
                issueType := Some (js ''Bug'') \<rparr>)
     \<lparr> world = (), sent = [] \<rparr>)) =
   [\<lparr> req_method = GET,
       req_url = js ''https://jira.example.com/rest/api/3/project/PROJ'',
       req_data = None \<rparr>,
    \<lparr> req_method = GET,
       req_url = js ''https://jira.example.com/rest/api/3/issue/createmeta?projectKeys=PROJ&expand=projects.issuetypes.fields'',
       req_data = None \<rparr>,
    \<lparr> req_method = POST,
       req_url = js ''https://jira.example.com/rest/api/3/issue'',
       req_data = Some (JObj [(js ''fields'',
         JObj [(js ''project'', JObj [(js ''key'', JStr (js ''PROJ''))]),
               (js ''summary'', JStr (js ''Fix login bug'')),
               (js ''issuetype'', JObj [(js ''id'', JStr (js ''10004''))])])]) \<rparr>]"
proof -
  have h2: "example_remote \<lparr> req_method = GET, req_url = u, req_data = None \<rparr> ()
              = (Inr \<lparr> data = example_data \<rparr>, ())" for u
    by (simp add: example_remote_def)
  have h4: "js_get (data \<lparr> data = example_data \<rparr>) (js ''projects'') = Inr (JArr [example_project])"
    by (simp add: example_data_def)
  have h5: "js_first (JArr [example_project]) = Inr example_project"
    by simp
  have h6: "truthy example_project"
    by (simp add: example_project_def)
  have h7: "js_get example_project (js ''issuetypes'') =
              Inr (JArr ([JObj example_task] @ JObj example_bug # []))"
    by (simp add: example_project_def)
  have h8: "map (\<lambda>t. js_get t (js ''name'')) [JObj example_task] =
              map (\<lambda>n. Inr (JStr n)) [js ''Task'']"
    by (simp add: example_task_def)
  have h9: "\<forall>n\<in>set [js ''Task'']. ascii_lower n \<noteq> ascii_lower (js ''Bug'')"
    by (simp add: ascii_lower_def)
  have h10: "map_of example_bug (js ''name'') = Some (JStr (js ''Bug''))"
    by (simp add: example_bug_def)
  have h11: "map_of example_bug (js ''id'') = Some (JStr (js ''10004''))"
    by (simp add: example_bug_def)
  have h12: "map_of example_bug (js ''fields'') =
               Some (JObj [(js ''summary'', JObj [(js ''required'', JBool True)])])"
    by (simp add: example_bug_def)
  have h13: "map_of [(js ''summary'', JObj [(js ''required'', JBool True)])] (js ''priority'') = None"
    by simp
  show ?thesis
    using C1_create_bug_payload[where lc = ascii_lower and cfg = example_cfg
              and remote = example_remote and S = "[]",
            OF refl h2 h2 h4 h5 h6 h7 h8 h9 h10 h11 h12 h13]
    by (simp add: example_cfg_def)
qed

text \<open>
  C2: when no issue type fetched for the project has a name that equals the requested
  name after lower-casing both, \<open>createIssue\<close> fails with the error whose message
  carries the requested name and the names of all the project's issue types, and the only
  requests sent are the two GETs: nothing is posted. The requested name is the argument
  \<open>issueType\<close> or, when absent, the default of the source.
\<close>

theorem C2_unknown_issue_type:
  assumes "wanted = (case issueType a of None \<Rightarrow> [0xC791, 0xC5C5] | Some t \<Rightarrow> t)"
    and "remote \<lparr> req_method = GET,
                   req_url = url cfg @ js ''/rest/api/3/project/'' @ tmpl (project a),
                   req_data = None \<rparr> w0 = (Inr r1, w1)"
    and "remote \<lparr> req_method = GET,
                   req_url = url cfg @ js ''/rest/api/3/issue/createmeta?projectKeys=''
                             @ tmpl (project a) @ js ''&expand=projects.issuetypes.fields'',
                   req_data = None \<rparr> w1 = (Inr metaR, w2)"
    and "js_get (data metaR) (js ''projects'') = Inr ps"
    and "js_first ps = Inr pm" and "truthy pm"
    and "js_get pm (js ''issuetypes'') = Inr (JArr types)"
    and "map (\<lambda>t. js_get t (js ''name'')) types = map (\<lambda>n. Inr (JStr n)) names"
    and "\<forall>n\<in>set names. lc n \<noteq> lc wanted"
  shows "createIssue lc cfg remote a \<lparr> world = w0, sent = S \<rparr> =
           (Inl (Error (js ''Issue type '' @ [0x22] @ wanted @ [0x22]
                        @ js '' not found. Available types: '' @ join (js '', '') names)),
            \<lparr> world = w2,
              sent = S @
                [\<lparr> req_method = GET,
                    req_url = url cfg @ js ''/rest/api/3/project/'' @ tmpl (project a),
                    req_data = None \<rparr>,
                 \<lparr> req_method = GET,
                    req_url = url cfg @ js ''/rest/api/3/issue/createmeta?projectKeys=''
                              @ tmpl (project a) @ js ''&expand=projects.issuetypes.fields'',
                    req_data = None \<rparr>] \<rparr>)"
proof -
  note f = findIssueType_none[OF assms(4-9) assms(1)]
  have d: "issueData lc a metaR =
             Inl (Error (js ''Issue type '' @ [0x22] @ wanted @ [0x22]
                         @ js '' not found. Available types: '' @ join (js '', '') names))"
    unfolding issueData_def Let_def f bindE_simps by (rule refl)
  show ?thesis
    using assms(2,3)
    by (simp add: createIssue_def makeJiraRequest_def Let_def d)
qed

theorem C2_unknown_issue_type_witness:
  "createIssue ascii_lower example_cfg example_remote
     (no_args \<lparr> project := Some (js ''PROJ''), summary := Some (js ''Fix login bug''),
                issueType := Some (js ''Epic'') \<rparr>)
     \<lparr> world = (), sent = [] \<rparr> =
   (Inl (Error (js ''Issue type '' @ [0x22] @ js ''Epic'' @ [0x22]
                @ js '' not found. Available types: Task, Bug'')),
    \<lparr> world = (),
      sent = [\<lparr> req_method = GET,
                req_url = js ''https://jira.example.com/rest/api/3/project/PROJ'',
                req_data = None \<rparr>,
              \<lparr> req_method = GET,
                req_url = js ''https://jira.example.com/rest/api/3/issue/createmeta?projectKeys=PROJ&expand=projects.issuetypes.fields'',
                req_data = None \<rparr>] \<rparr>)"
proof -
  have h1: "js ''Epic'' =
      (case issueType (no_args \<lparr> project := Some (js ''PROJ''),
              summary := Some (js ''Fix login bug''), issueType := Some (js ''Epic'') \<rparr>) of
         None \<Rightarrow> [0xC791, 0xC5C5] | Some t \<Rightarrow> t)"
    by simp
  have h2: "example_remote \<lparr> req_method = GET, req_url = u, req_data = None \<rparr> ()
              = (Inr \<lparr> data = example_data \<rparr>, ())" for u
    by (simp add: example_remote_def)
  have h4: "js_get (data \<lparr> data = example_data \<rparr>) (js ''projects'') = Inr (JArr [example_project])"
    by (simp add: example_data_def)
  have h5: "js_first (JArr [example_project]) = Inr example_project"
    by simp
  have h6: "truthy example_project"
    by (simp add: example_project_def)
  have h7: "js_get example_project (js ''issuetypes'') =
              Inr (JArr [JObj example_task, JObj example_bug])"
    by (simp add: example_project_def)
  have h8: "map (\<lambda>t. js_get t (js ''name'')) [JObj example_task, JObj example_bug] =
              map (\<lambda>n. Inr (JStr n)) [js ''Task'', js ''Bug'']"
    by (simp add: example_task_def example_bug_def)
  have h9: "\<forall>n\<in>set [js ''Task'', js ''Bug'']. ascii_lower n \<noteq> ascii_lower (js ''Epic'')"
    by (simp add: ascii_lower_def)
  show ?thesis
    using C2_unknown_issue_type[where lc = ascii_lower and cfg = example_cfg
              and remote = example_remote and S = "[]" and wanted = "js ''Epic''"
              and a = "no_args \<lparr> project := Some (js ''PROJ''),
                         summary := Some (js ''Fix login bug''),
                         issueType := Some (js ''Epic'') \<rparr>",
            OF h1 h2 h2 h4 h5 h6 h7 h8 h9]
    by (simp add: example_cfg_def)
qed

text \<open>
  C3: priority resolution never makes \<open>createIssue\<close> fail. Once the issue type is
  resolved, if its fields declare no priority, or declare one without allowed values, or
  one none of whose allowed values has a name that equals the requested priority after
  lower-casing both, then the body
  posted to the create endpoint has no \<open>priority\<close> key, the POST is sent, and when the
  remote answers it with the key of the new issue the tool returns its success text, whose
  \<open>Priority:\<close> line repeats the priority the caller asked for (or the default
  \<open>Medium\<close>).
\<close>

theorem C3_priority_best_effort:
  assumes "wanted = (case issueType a of None \<Rightarrow> [0xC791, 0xC5C5] | Some t \<Rightarrow> t)"
    and "prio = (case priority a of None \<Rightarrow> js ''Medium'' | Some p \<Rightarrow> p)"
    and "remote \<lparr> req_method = GET,
                   req_url = url cfg @ js ''/rest/api/3/project/'' @ tmpl (project a),
                   req_data = None \<rparr> w0 = (Inr r1, w1)"
    and "remote \<lparr> req_method = GET,
                   req_url = url cfg @ js ''/rest/api/3/issue/createmeta?projectKeys=''
                             @ tmpl (project a) @ js ''&expand=projects.issuetypes.fields'',
                   req_data = None \<rparr> w1 = (Inr metaR, w2)"
    and "js_get (data metaR) (js ''projects'') = Inr ps"
    and "js_first ps = Inr pm" and "truthy pm"
    and "js_get pm (js ''issuetypes'') = Inr (JArr (pre @ JObj ty # post))"
    and "map (\<lambda>t. js_get t (js ''name'')) pre = map (\<lambda>n. Inr (JStr n)) prenames"
    and "\<forall>n\<in>set prenames. lc n \<noteq> lc wanted"
    and "map_of ty (js ''name'') = Some (JStr n)" and "lc n = lc wanted"
    and "map_of ty (js ''fields'') = Some (JObj fs)"
    and "map_of fs (js ''priority'') = None \<or>
         (map_of fs (js ''priority'') = Some (JObj pf) \<and>
          (map_of pf (js ''allowedValues'') = None \<or>
           (map_of pf (js ''allowedValues'') = Some (JArr avs) \<and>
            map (\<lambda>p. js_get p (js ''name'')) avs = map (\<lambda>n. Inr (JStr n)) pnames \<and>
            (\<forall>n\<in>set pnames. lc n \<noteq> lc prio))))"
  shows "\<exists>F. js ''priority'' \<notin> fst ` set F \<and>
           sent (snd (createIssue lc cfg remote a \<lparr> world = w0, sent = S \<rparr>)) =
             S @ [\<lparr> req_method = GET,
                     req_url = url cfg @ js ''/rest/api/3/project/'' @ tmpl (project a),
                     req_data = None \<rparr>,
                  \<lparr> req_method = GET,
                     req_url = url cfg @ js ''/rest/api/3/issue/createmeta?projectKeys=''
                               @ tmpl (project a) @ js ''&expand=projects.issuetypes.fields'',
                     req_data = None \<rparr>,
                  \<lparr> req_method = POST, req_url = url cfg @ js ''/rest/api/3/issue'',
                     req_data = Some (JObj [(js ''fields'', JObj F)]) \<rparr>] \<and>
           (\<forall>resp w3 k.
              remote \<lparr> req_method = POST, req_url = url cfg @ js ''/rest/api/3/issue'',
                       req_data = Some (JObj [(js ''fields'', JObj F)]) \<rparr> w2 = (Inr resp, w3) \<and>
              js_get (data resp) (js ''key'') = Inr (JStr k) \<longrightarrow>
              fst (createIssue lc cfg remote a \<lparr> world = w0, sent = S \<rparr>) =
                Inr (text_result
                  ([0x2705] @ js '' Successfully created issue: **'' @ k @ js ''**\<newline>''
                   @ js ''Summary: '' @ tmpl (summary a) @ js ''\<newline>''
                   @ js ''Type: '' @ wanted @ js ''\<newline>''
                   @ js ''Priority: '' @ prio @ js ''\<newline>''
                   @ js ''Project: '' @ tmpl (project a) @ js ''\<newline>''
                   @ js ''URL: '' @ url cfg @ js ''/browse/'' @ k)))"
proof -
  define tid where "tid = (case map_of ty (js ''id'') of None \<Rightarrow> JUndefined | Some v \<Rightarrow> v)"
  define d where "d = (case description a of None \<Rightarrow> [] | Some d \<Rightarrow> d)"
  define f0 where "f0 = [(js ''project'', JObj [(js ''key'', opt_val (project a))]),
                     (js ''summary'', opt_val (summary a)),
                     (js ''issuetype'', JObj [(js ''id'', tid)])]"
  define f1 where "f1 = (if d \<noteq> [] then set_prop f0 (js ''description'') (adf_doc d) else f0)"
  define f3 where "f3 = (if truthy (opt_val (assignee a))
                     then set_prop f1 (js ''assignee'')
                            (JObj [(js ''emailAddress'', opt_val (assignee a))])
                     else f1)"
  define f4 where "f4 = (case labels a of
                       None \<Rightarrow> f3
                     | Some ls \<Rightarrow> set_prop f3 (js ''labels'') (JArr (map JStr ls)))"
  have k0: "js ''priority'' \<notin> fst ` set f0" by (simp add: f0_def)
  have k1: "js ''priority'' \<notin> fst ` set f1" using k0 by (simp add: f1_def keys_set_prop)
  have k3: "js ''priority'' \<notin> fst ` set f3" using k1 by (simp add: f3_def keys_set_prop)
  have k4: "js ''priority'' \<notin> fst ` set f4"
    using k3 by (cases "labels a") (simp_all add: f4_def keys_set_prop)
  note ft = findIssueType_first[OF assms(5-12) assms(1)]
  note ap = addPriority_skip[OF assms(13,14)]
  have gid: "js_get (JObj ty) (js ''id'') = Inr tid"
    by (simp add: tid_def del: js_simps)
  have body: "issueData lc a metaR = Inr (JObj [(js ''fields'', JObj f4)])"
    unfolding issueData_def Let_def ft assms(2)[symmetric] bindE_simps gid ap
      f4_def f3_def f1_def f0_def d_def
    by (rule refl)
  let ?st = "\<lparr> world = w0, sent = S \<rparr>"
  let ?post = "\<lparr> req_method = POST, req_url = url cfg @ js ''/rest/api/3/issue'',
                     req_data = Some (JObj [(js ''fields'', JObj f4)]) \<rparr>"
  have run: "createIssue lc cfg remote a ?st =
      (case remote ?post w2 of
         (Inl e, w3) \<Rightarrow> (Inl e, \<lparr> world = w3, sent = S @ [\<lparr> req_method = GET,
                     req_url = url cfg @ js ''/rest/api/3/project/'' @ tmpl (project a),
                     req_data = None \<rparr>,
                  \<lparr> req_method = GET,
                     req_url = url cfg @ js ''/rest/api/3/issue/createmeta?projectKeys=''
                               @ tmpl (project a) @ js ''&expand=projects.issuetypes.fields'',
                     req_data = None \<rparr>, ?post] \<rparr>)
       | (Inr resp, w3) \<Rightarrow>
          (bindE (js_get (data resp) (js ''key'')) (\<lambda>k.
           bindE (to_string k) (\<lambda>issueKey.
             Inr (text_result
                ([0x2705] @ js '' Successfully created issue: **'' @ issueKey @ js ''**\<newline>''
                 @ js ''Summary: '' @ tmpl (summary a) @ js ''\<newline>''
                 @ js ''Type: '' @ wanted @ js ''\<newline>''
                 @ js ''Priority: '' @ prio @ js ''\<newline>''
                 @ js ''Project: '' @ tmpl (project a) @ js ''\<newline>''
                 @ js ''URL: '' @ url cfg @ js ''/browse/'' @ issueKey)))),
           \<lparr> world = w3, sent = S @ [\<lparr> req_method = GET,
                     req_url = url cfg @ js ''/rest/api/3/project/'' @ tmpl (project a),
                     req_data = None \<rparr>,
                  \<lparr> req_method = GET,
                     req_url = url cfg @ js ''/rest/api/3/issue/createmeta?projectKeys=''
                               @ tmpl (project a) @ js ''&expand=projects.issuetypes.fields'',
                     req_data = None \<rparr>, ?post] \<rparr>))"
    using assms(3,4)
    by (simp add: createIssue_def makeJiraRequest_def Let_def body assms(1,2)
          split: prod.splits sum.splits)
  have sent: "sent (snd (createIssue lc cfg remote a ?st)) =
             S @ [\<lparr> req_method = GET,
                     req_url = url cfg @ js ''/rest/api/3/project/'' @ tmpl (project a),
                     req_data = None \<rparr>,
                  \<lparr> req_method = GET,
                     req_url = url cfg @ js ''/rest/api/3/issue/createmeta?projectKeys=''
                               @ tmpl (project a) @ js ''&expand=projects.issuetypes.fields'',
                     req_data = None \<rparr>, ?post]"
    unfolding run by (simp split: prod.splits sum.splits)
  have ok: "fst (createIssue lc cfg remote a ?st) =
                Inr (text_result
                  ([0x2705] @ js '' Successfully created issue: **'' @ k @ js ''**\<newline>''
                   @ js ''Summary: '' @ tmpl (summary a) @ js ''\<newline>''
                   @ js ''Type: '' @ wanted @ js ''\<newline>''
                   @ js ''Priority: '' @ prio @ js ''\<newline>''
                   @ js ''Project: '' @ tmpl (project a) @ js ''\<newline>''
                   @ js ''URL: '' @ url cfg @ js ''/browse/'' @ k))"
    if "remote ?post w2 = (Inr resp, w3)" "js_get (data resp) (js ''key'') = Inr (JStr k)"
    for resp w3 k
    unfolding run using that by simp
  show ?thesis
    using k4 sent ok by blast
qed

theorem C3_priority_best_effort_witness:
  "\<exists>F. js ''priority'' \<notin> fst ` set F \<and>
     sent (snd (createIssue ascii_lower example_cfg example_remote
        (no_args \<lparr> project := Some (js ''PROJ''), summary := Some (js ''Fix login bug''),
                   issueType := Some (js ''task''), priority := Some (js ''Urgent'') \<rparr>)
        \<lparr> world = (), sent = [] \<rparr>)) =
       [\<lparr> req_method = GET,
           req_url = js ''https://jira.example.com/rest/api/3/project/PROJ'',
           req_data = None \<rparr>,
        \<lparr> req_method = GET,
           req_url = js ''https://jira.example.com/rest/api/3/issue/createmeta?projectKeys=PROJ&expand=projects.issuetypes.fields'',
           req_data = None \<rparr>,
        \<lparr> req_method = POST,
           req_url = js ''https://jira.example.com/rest/api/3/issue'',
           req_data = Some (JObj [(js ''fields'', JObj F)]) \<rparr>] \<and>
     fst (createIssue ascii_lower example_cfg example_remote
        (no_args \<lparr> project := Some (js ''PROJ''), summary := Some (js ''Fix login bug''),
                   issueType := Some (js ''task''), priority := Some (js ''Urgent'') \<rparr>)
        \<lparr> world = (), sent = [] \<rparr>) =
       Inr (text_result
         ([0x2705] @ js '' Successfully created issue: **PROJ-7**\<newline>''
          @ js ''Summary: Fix login bug\<newline>''
          @ js ''Type: task\<newline>''
          @ js ''Priority: Urgent\<newline>''
          @ js ''Project: PROJ\<newline>''
          @ js ''URL: https://jira.example.com/browse/PROJ-7''))"
proof -
  let ?a = "no_args \<lparr> project := Some (js ''PROJ''), summary := Some (js ''Fix login bug''),
                      issueType := Some (js ''task''), priority := Some (js ''Urgent'') \<rparr>"
  have h1: "js ''task'' = (case issueType ?a of None \<Rightarrow> [0xC791, 0xC5C5] | Some t \<Rightarrow> t)"
    by simp
  have h2: "js ''Urgent'' = (case priority ?a of None \<Rightarrow> js ''Medium'' | Some p \<Rightarrow> p)"
    by simp
  have h3: "example_remote \<lparr> req_method = GET, req_url = u, req_data = None \<rparr> ()
              = (Inr \<lparr> data = example_data \<rparr>, ())" for u
    by (simp add: example_remote_def)
  have h5: "js_get (data \<lparr> data = example_data \<rparr>) (js ''projects'') = Inr (JArr [example_project])"
    by (simp add: example_data_def)
  have h6: "js_first (JArr [example_project]) = Inr example_project"
    by simp
  have h7: "truthy example_project"
    by (simp add: example_project_def)
  have h8: "js_get example_project (js ''issuetypes'') =
              Inr (JArr ([] @ JObj example_task # [JObj example_bug]))"
    by (simp add: example_project_def)
  have h9: "map (\<lambda>t. js_get t (js ''name'')) [] = map (\<lambda>n. Inr (JStr n)) []"
    by simp
  have h10: "\<forall>n\<in>set []. ascii_lower n \<noteq> ascii_lower (js ''task'')"
    by simp
  have h11: "map_of example_task (js ''name'') = Some (JStr (js ''Task''))"
    by (simp add: example_task_def)
  have h12: "ascii_lower (js ''Task'') = ascii_lower (js ''task'')"
    by (simp add: ascii_lower_def)
  have h13: "map_of example_task (js ''fields'') =
               Some (JObj [(js ''priority'', JObj example_priority)])"
    by (simp add: example_task_def)
  have h14: "map_of [(js ''priority'', JObj example_priority)] (js ''priority'') = None \<or>
         (map_of [(js ''priority'', JObj example_priority)] (js ''priority'')
            = Some (JObj example_priority) \<and>
          (map_of example_priority (js ''allowedValues'') = None \<or>
           (map_of example_priority (js ''allowedValues'') =
              Some (JArr [JObj [(js ''id'', JStr (js ''2'')), (js ''name'', JStr (js ''High''))],
                          JObj [(js ''id'', JStr (js ''4'')), (js ''name'', JStr (js ''Low''))]]) \<and>
            map (\<lambda>p. js_get p (js ''name''))
                [JObj [(js ''id'', JStr (js ''2'')), (js ''name'', JStr (js ''High''))],
                 JObj [(js ''id'', JStr (js ''4'')), (js ''name'', JStr (js ''Low''))]]
              = map (\<lambda>n. Inr (JStr n)) [js ''High'', js ''Low''] \<and>
            (\<forall>n\<in>set [js ''High'', js ''Low'']. ascii_lower n \<noteq> ascii_lower (js ''Urgent'')))))"
    by (simp add: example_priority_def ascii_lower_def)
  have post: "example_remote \<lparr> req_method = POST, req_url = u, req_data = b \<rparr> ()
                = (Inr \<lparr> data = JObj [(js ''id'', JStr (js ''20007'')),
                                        (js ''key'', JStr (js ''PROJ-7''))] \<rparr>, ())" for u b
    by (simp add: example_remote_def)
  have key: "js_get (data \<lparr> data = JObj [(js ''id'', JStr (js ''20007'')),
                                          (js ''key'', JStr (js ''PROJ-7''))] \<rparr>) (js ''key'')
               = Inr (JStr (js ''PROJ-7''))"
    by simp
  from C3_priority_best_effort[where lc = ascii_lower and cfg = example_cfg
         and remote = example_remote and S = "[]" and a = ?a and wanted = "js ''task''"
         and prio = "js ''Urgent''",
       OF h1 h2 h3 h3 h5 h6 h7 h8 h9 h10 h11 h12 h13 h14]
  obtain F where F: "js ''priority'' \<notin> fst ` set F"
    "sent (snd (createIssue ascii_lower example_cfg example_remote ?a \<lparr> world = (), sent = [] \<rparr>)) =
       [] @ [\<lparr> req_method = GET,
               req_url = url example_cfg @ js ''/rest/api/3/project/'' @ tmpl (project ?a),
               req_data = None \<rparr>,
             \<lparr> req_method = GET,
               req_url = url example_cfg @ js ''/rest/api/3/issue/createmeta?projectKeys=''
                         @ tmpl (project ?a) @ js ''&expand=projects.issuetypes.fields'',
               req_data = None \<rparr>,
             \<lparr> req_method = POST, req_url = url example_cfg @ js ''/rest/api/3/issue'',
               req_data = Some (JObj [(js ''fields'', JObj F)]) \<rparr>]"
    "\<And>resp w3 k.
        example_remote \<lparr> req_method = POST, req_url = url example_cfg @ js ''/rest/api/3/issue'',
                          req_data = Some (JObj [(js ''fields'', JObj F)]) \<rparr> () = (Inr resp, w3)
        \<Longrightarrow> js_get (data resp) (js ''key'') = Inr (JStr k)
        \<Longrightarrow> fst (createIssue ascii_lower example_cfg example_remote ?a \<lparr> world = (), sent = [] \<rparr>) =
              Inr (text_result
                ([0x2705] @ js '' Successfully created issue: **'' @ k @ js ''**\<newline>''
                 @ js ''Summary: '' @ tmpl (summary ?a) @ js ''\<newline>''
                 @ js ''Type: '' @ js ''task'' @ js ''\<newline>''
                 @ js ''Priority: '' @ js ''Urgent'' @ js ''\<newline>''
                 @ js ''Project: '' @ tmpl (project ?a) @ js ''\<newline>''
                 @ js ''URL: '' @ url example_cfg @ js ''/browse/'' @ k))"
    by blast
  from F(3)[OF post key] F(1) F(2) show ?thesis
    by (intro exI[of _ F]) (simp add: example_cfg_def)
qed

section \<open>transitionIssue\<close>

lemma to_names_no_match:
  assumes "map (\<lambda>t. bindE (js_get t (js ''to'')) (\<lambda>d. js_get d (js ''name''))) ts
             = map (\<lambda>n. Inr (JStr n)) names"
    and "\<forall>n\<in>set names. lc n \<noteq> lc wanted"
  shows "\<forall>t\<in>set ts. to_name_matches lc (Some wanted) t = Inr False"
proof
  fix t assume "t \<in> set ts"
  then have "bindE (js_get t (js ''to'')) (\<lambda>d. js_get d (js ''name''))
               \<in> set (map (\<lambda>t. bindE (js_get t (js ''to'')) (\<lambda>d. js_get d (js ''name''))) ts)"
    by simp
  with assms(1) obtain n where n: "n \<in> set names"
    and g: "bindE (js_get t (js ''to'')) (\<lambda>d. js_get d (js ''name'')) = Inr (JStr n)"
    by auto
  from g obtain d where "js_get t (js ''to'') = Inr d" "js_get d (js ''name'') = Inr (JStr n)"
    by (cases "js_get t (js ''to'')") (simp_all del: js_simps)
  with n assms(2) show "to_name_matches lc (Some wanted) t = Inr False"
    by (simp add: to_name_matches_def del: js_simps)
qed

lemma transitionData_none:
  assumes "status a = Some wanted"
    and "js_get (data tr) (js ''transitions'') = Inr (JArr ts)"
    and "map (\<lambda>t. bindE (js_get t (js ''to'')) (\<lambda>d. js_get d (js ''name''))) ts
           = map (\<lambda>n. Inr (JStr n)) names"
    and "\<forall>n\<in>set names. lc n \<noteq> lc wanted"
  shows "transitionData lc a tr =
           Inl (Error (js ''Status '' @ [0x22] @ wanted @ [0x22]
                       @ js '' not available. Available statuses: '' @ join (js '', '') names))"
proof -
  have f: "js_find (to_name_matches lc (Some wanted)) ts = Inr JUndefined"
    using to_names_no_match[OF assms(3,4)] by (rule js_find_none)
  have m: "js_map (\<lambda>t. bindE (js_get t (js ''to'')) (\<lambda>d. js_get d (js ''name''))) ts
             = Inr (map JStr names)"
    using assms(3) by (intro js_map_all) simp
  show ?thesis
    unfolding transitionData_def Let_def assms(1)
    by (simp add: assms(2) f m js_join_strings del: js_simps)
qed

lemma transitionData_first:
  assumes "status a = Some wanted"
    and "js_get (data tr) (js ''transitions'') = Inr (JArr (pre @ JObj t # post))"
    and "map (\<lambda>t. bindE (js_get t (js ''to'')) (\<lambda>d. js_get d (js ''name''))) pre
           = map (\<lambda>n. Inr (JStr n)) prenames"
    and "\<forall>n\<in>set prenames. lc n \<noteq> lc wanted"
    and "map_of t (js ''to'') = Some dest"
    and "js_get dest (js ''name'') = Inr (JStr n)" and "lc n = lc wanted"
    and "map_of t (js ''id'') = Some tid"
  shows "transitionData lc a tr = Inr (JObj [(js ''transition'', JObj [(js ''id'', tid)])])"
proof -
  have hit: "to_name_matches lc (Some wanted) (JObj t) = Inr True"
    using assms(5-7) by (simp add: to_name_matches_def del: js_simps)
  have f: "js_find (to_name_matches lc (Some wanted)) (pre @ JObj t # post) = Inr (JObj t)"
    using to_names_no_match[OF assms(3,4)] hit by (rule js_find_first)
  show ?thesis
    unfolding transitionData_def Let_def assms(1)
    by (simp add: assms(2,8) f del: js_simps)
qed

text \<open>
  C4: when no transition fetched for the issue leads to a status whose name equals the
  requested status after lower-casing both, \<open>transitionIssue\<close> fails with the error
  whose message carries the requested name and the destination names of all the
  transitions fetched, and the only request sent is the GET: no transition is posted.
\<close>

theorem C4_status_not_available:
  assumes "status a = Some wanted"
    and "remote \<lparr> req_method = GET,
                   req_url = url cfg @ js ''/rest/api/3/issue/'' @ tmpl (issueKey a)
                             @ js ''/transitions'',
                   req_data = None \<rparr> w0 = (Inr tr, w1)"
    and "js_get (data tr) (js ''transitions'') = Inr (JArr ts)"
    and "map (\<lambda>t. bindE (js_get t (js ''to'')) (\<lambda>d. js_get d (js ''name''))) ts
           = map (\<lambda>n. Inr (JStr n)) names"
    and "\<forall>n\<in>set names. lc n \<noteq> lc wanted"
  shows "transitionIssue lc cfg remote a \<lparr> world = w0, sent = S \<rparr> =
           (Inl (Error (js ''Status '' @ [0x22] @ wanted @ [0x22]
                        @ js '' not available. Available statuses: '' @ join (js '', '') names)),
            \<lparr> world = w1,
              sent = S @ [\<lparr> req_method = GET,
                            req_url = url cfg @ js ''/rest/api/3/issue/'' @ tmpl (issueKey a)
                                      @ js ''/transitions'',
                            req_data = None \<rparr>] \<rparr>)"
proof -
  note d = transitionData_none[OF assms(1,3,4,5)]
  show ?thesis
    using assms(2)
    by (simp add: transitionIssue_def makeJiraRequest_def Let_def d)
qed

theorem C4_status_not_available_witness:
  "transitionIssue ascii_lower example_cfg example_remote
     (no_args \<lparr> issueKey := Some (js ''PROJ-7''), status := Some (js ''Blocked'') \<rparr>)
     \<lparr> world = (), sent = [] \<rparr> =
   (Inl (Error (js ''Status '' @ [0x22] @ js ''Blocked'' @ [0x22]
                @ js '' not available. Available statuses: In Progress, Done, DONE'')),
    \<lparr> world = (),
      sent = [\<lparr> req_method = GET,
                req_url = js ''https://jira.example.com/rest/api/3/issue/PROJ-7/transitions'',
                req_data = None \<rparr>] \<rparr>)"
proof -
  let ?a = "no_args \<lparr> issueKey := Some (js ''PROJ-7''), status := Some (js ''Blocked'') \<rparr>"
  have h1: "status ?a = Some (js ''Blocked'')"
    by simp
  have h2: "example_remote \<lparr> req_method = GET, req_url = u, req_data = None \<rparr> ()
              = (Inr \<lparr> data = example_data \<rparr>, ())" for u
    by (simp add: example_remote_def)
  have h3: "js_get (data \<lparr> data = example_data \<rparr>) (js ''transitions'') =
              Inr (JArr [example_start, JObj example_finish, example_close])"
    by (simp add: example_data_def)
  have h4: "map (\<lambda>t. bindE (js_get t (js ''to'')) (\<lambda>d. js_get d (js ''name'')))
              [example_start, JObj example_finish, example_close]
            = map (\<lambda>n. Inr (JStr n)) [js ''In Progress'', js ''Done'', js ''DONE'']"
    by (simp add: example_start_def example_finish_def example_close_def)
  have h5: "\<forall>n\<in>set [js ''In Progress'', js ''Done'', js ''DONE''].
              ascii_lower n \<noteq> ascii_lower (js ''Blocked'')"
    by (simp add: ascii_lower_def)
  show ?thesis
    using C4_status_not_available[where lc = ascii_lower and cfg = example_cfg
            and remote = example_remote and S = "[]" and a = ?a, OF h1 h2 h3 h4 h5]
    by (simp add: example_cfg_def)
qed

text \<open>
  C10: when a fetched transition leads to a status whose name matches the requested one
  and no transition before it in the list does, \<open>transitionIssue\<close> posts the id of that
  transition, whatever follows it in the list (further matching transitions included), and
  returns its success text when the remote accepts the POST: the first match in the order
  of the response is applied and the ambiguity raises no error.
\<close>

theorem C10_first_matching_transition:
  assumes "status a = Some wanted"
    and "remote \<lparr> req_method = GET,
                   req_url = url cfg @ js ''/rest/api/3/issue/'' @ tmpl (issueKey a)
                             @ js ''/transitions'',
                   req_data = None \<rparr> w0 = (Inr tr, w1)"
    and "js_get (data tr) (js ''transitions'') = Inr (JArr (pre @ JObj t # post))"
    and "map (\<lambda>t. bindE (js_get t (js ''to'')) (\<lambda>d. js_get d (js ''name''))) pre
           = map (\<lambda>n. Inr (JStr n)) prenames"
    and "\<forall>n\<in>set prenames. lc n \<noteq> lc wanted"
    and "map_of t (js ''to'') = Some dest"
    and "js_get dest (js ''name'') = Inr (JStr n)" and "lc n = lc wanted"
    and "map_of t (js ''id'') = Some tid"
  shows "sent (snd (transitionIssue lc cfg remote a \<lparr> world = w0, sent = S \<rparr>)) =
           S @ [\<lparr> req_method = GET,
                   req_url = url cfg @ js ''/rest/api/3/issue/'' @ tmpl (issueKey a)
                             @ js ''/transitions'',
                   req_data = None \<rparr>,
                \<lparr> req_method = POST,
                   req_url = url cfg @ js ''/rest/api/3/issue/'' @ tmpl (issueKey a)
                             @ js ''/transitions'',
                   req_data = Some (JObj [(js ''transition'', JObj [(js ''id'', tid)])]) \<rparr>] \<and>
         (\<forall>resp w2.
            remote \<lparr> req_method = POST,
                     req_url = url cfg @ js ''/rest/api/3/issue/'' @ tmpl (issueKey a)
                               @ js ''/transitions'',
                     req_data = Some (JObj [(js ''transition'', JObj [(js ''id'', tid)])]) \<rparr> w1
              = (Inr resp, w2) \<longrightarrow>
            fst (transitionIssue lc cfg remote a \<lparr> world = w0, sent = S \<rparr>) =
              Inr (text_result
                ([0x2705] @ js '' Successfully transitioned issue **'' @ tmpl (issueKey a)
                 @ js ''** to **'' @ wanted @ js ''**\<newline>''
                 @ js ''URL: '' @ url cfg @ js ''/browse/'' @ tmpl (issueKey a))))"
proof -
  note d = transitionData_first[OF assms(1,3-9)]
  show ?thesis
    using assms(2)
    by (auto simp add: transitionIssue_def makeJiraRequest_def Let_def d assms(1)
          split: prod.splits sum.splits)
qed

theorem C10_first_matching_transition_witness:
  "sent (snd (transitionIssue ascii_lower example_cfg example_remote
     (no_args \<lparr> issueKey := Some (js ''PROJ-7''), status := Some (js ''done'') \<rparr>)
     \<lparr> world = (), sent = [] \<rparr>)) =
     [\<lparr> req_method = GET,
         req_url = js ''https://jira.example.com/rest/api/3/issue/PROJ-7/transitions'',
         req_data = None \<rparr>,
      \<lparr> req_method = POST,
         req_url = js ''https://jira.example.com/rest/api/3/issue/PROJ-7/transitions'',
         req_data = Some (JObj [(js ''transition'', JObj [(js ''id'', JStr (js ''21''))])]) \<rparr>] \<and>
   fst (transitionIssue ascii_lower example_cfg example_remote
     (no_args \<lparr> issueKey := Some (js ''PROJ-7''), status := Some (js ''done'') \<rparr>)
     \<lparr> world = (), sent = [] \<rparr>) =
     Inr (text_result
       ([0x2705] @ js '' Successfully transitioned issue **PROJ-7** to **done**\<newline>''
        @ js ''URL: https://jira.example.com/browse/PROJ-7''))"
proof -
  let ?a = "no_args \<lparr> issueKey := Some (js ''PROJ-7''), status := Some (js ''done'') \<rparr>"
  have h1: "status ?a = Some (js ''done'')"
    by simp
  have h2: "example_remote \<lparr> req_method = GET, req_url = u, req_data = None \<rparr> ()
              = (Inr \<lparr> data = example_data \<rparr>, ())" for u
    by (simp add: example_remote_def)
  have h3: "js_get (data \<lparr> data = example_data \<rparr>) (js ''transitions'') =
              Inr (JArr ([example_start] @ JObj example_finish # [example_close]))"
    by (simp add: example_data_def)
  have h4: "map (\<lambda>t. bindE (js_get t (js ''to'')) (\<lambda>d. js_get d (js ''name''))) [example_start]
            = map (\<lambda>n. Inr (JStr n)) [js ''In Progress'']"
    by (simp add: example_start_def)
  have h5: "\<forall>n\<in>set [js ''In Progress'']. ascii_lower n \<noteq> ascii_lower (js ''done'')"
    by (simp add: ascii_lower_def)
  have h6: "map_of example_finish (js ''to'') = Some (JObj [(js ''name'', JStr (js ''Done''))])"
    by (simp add: example_finish_def)
  have h7: "js_get (JObj [(js ''name'', JStr (js ''Done''))]) (js ''name'') = Inr (JStr (js ''Done''))"
    by simp
  have h8: "ascii_lower (js ''Done'') = ascii_lower (js ''done'')"
    by (simp add: ascii_lower_def)
  have h9: "map_of example_finish (js ''id'') = Some (JStr (js ''21''))"
    by (simp add: example_finish_def)
  have post: "example_remote \<lparr> req_method = POST, req_url = u, req_data = b \<rparr> ()
                = (Inr \<lparr> data = JObj [(js ''id'', JStr (js ''20007'')),
                                        (js ''key'', JStr (js ''PROJ-7''))] \<rparr>, ())" for u b
    by (simp add: example_remote_def)
  show ?thesis
    using C10_first_matching_transition[where lc = ascii_lower and cfg = example_cfg
            and remote = example_remote and S = "[]" and a = ?a,
            OF h1 h2 h3 h4 h5 h6 h7 h8 h9] post
    by (simp add: example_cfg_def)
qed

section \<open>updateIssue\<close>

lemma updateIssue_sent:
  "sent (snd (updateIssue cfg remote a st)) = sent st \<or>
   (\<exists>F. sent (snd (updateIssue cfg remote a st)) =
          sent st @ [\<lparr> req_method = PUT,
                       req_url = url cfg @ js ''/rest/api/3'' @ js ''/issue/'' @ tmpl (issueKey a),
                       req_data = Some (JObj [(js ''fields'', JObj F)]) \<rparr>]
        \<and> fst ` set F =
            {k. (k = js ''summary'' \<and> truthy (opt_val (summary a))) \<or>
                (k = js ''description'' \<and> truthy (opt_val (description a))) \<or>
                (k = js ''assignee'' \<and> truthy (opt_val (assignee a))) \<or>
                (k = js ''priority'' \<and> truthy (opt_val (priority a))) \<or>
                (k = js ''labels'' \<and> labels a \<noteq> None)})"
proof -
  define f1 where "f1 = (if truthy (opt_val (summary a))
                     then set_prop [] (js ''summary'') (opt_val (summary a))
                     else [])"
  define f2 where "f2 = (if truthy (opt_val (description a))
                     then set_prop f1 (js ''description'') (adf_doc (tmpl (description a)))
                     else f1)"
  define f3 where "f3 = (if truthy (opt_val (assignee a))
                     then set_prop f2 (js ''assignee'')
                            (JObj [(js ''emailAddress'', opt_val (assignee a))])
                     else f2)"
  define f4 where "f4 = (if truthy (opt_val (priority a))
                     then set_prop f3 (js ''priority'') (JObj [(js ''name'', opt_val (priority a))])
                     else f3)"
  define f5 where "f5 = (case labels a of
                       None \<Rightarrow> f4
                     | Some ls \<Rightarrow> set_prop f4 (js ''labels'') (JArr (map JStr ls)))"
  have k1: "fst ` set f1 = {k. k = js ''summary'' \<and> truthy (opt_val (summary a))}"
    unfolding f1_def
    by (cases "truthy (opt_val (summary a))") (simp_all add: keys_set_prop del: js_simps)
  have k2: "fst ` set f2 =
              fst ` set f1 \<union> {k. k = js ''description'' \<and> truthy (opt_val (description a))}"
    unfolding f2_def
    by (cases "truthy (opt_val (description a))") (simp_all add: keys_set_prop del: js_simps)
  have k3: "fst ` set f3 =
              fst ` set f2 \<union> {k. k = js ''assignee'' \<and> truthy (opt_val (assignee a))}"
    unfolding f3_def
    by (cases "truthy (opt_val (assignee a))") (simp_all add: keys_set_prop del: js_simps)
  have k4: "fst ` set f4 =
              fst ` set f3 \<union> {k. k = js ''priority'' \<and> truthy (opt_val (priority a))}"
    unfolding f4_def
    by (cases "truthy (opt_val (priority a))") (simp_all add: keys_set_prop del: js_simps)
  have k5: "fst ` set f5 = fst ` set f4 \<union> {k. k = js ''labels'' \<and> labels a \<noteq> None}"
    unfolding f5_def by (cases "labels a") (simp_all add: keys_set_prop del: js_simps)
  have keys: "fst ` set f5 =
            {k. (k = js ''summary'' \<and> truthy (opt_val (summary a))) \<or>
                (k = js ''description'' \<and> truthy (opt_val (description a))) \<or>
                (k = js ''assignee'' \<and> truthy (opt_val (assignee a))) \<or>
                (k = js ''priority'' \<and> truthy (opt_val (priority a))) \<or>
                (k = js ''labels'' \<and> labels a \<noteq> None)}"
    unfolding k5 k4 k3 k2 k1 by blast
  have eq: "updateIssue cfg remote a st =
     (if length f5 > 0
      then (case makeJiraRequest cfg remote PUT (js ''/issue/'' @ tmpl (issueKey a))
                   (JObj [(js ''fields'', JObj f5)]) st of
              (Inl e, st1) \<Rightarrow> (Inl e, st1)
            | (Inr r, st1) \<Rightarrow> (Inr (text_result
            ([0x2705] @ js '' Successfully updated issue: **'' @ tmpl (issueKey a) @ js ''**\<newline>''
             @ js ''URL: '' @ url cfg @ js ''/browse/'' @ tmpl (issueKey a))), st1))
      else (Inr (text_result
            ([0x2705] @ js '' Successfully updated issue: **'' @ tmpl (issueKey a) @ js ''**\<newline>''
             @ js ''URL: '' @ url cfg @ js ''/browse/'' @ tmpl (issueKey a))), st))"
    unfolding updateIssue_def Let_def f5_def f4_def f3_def f2_def f1_def by (rule refl)
  show ?thesis
  proof (cases "f5 = []")
    case True
    then show ?thesis by (simp add: eq)
  next
    case False
    have "sent (snd (updateIssue cfg remote a st)) =
          sent st @ [\<lparr> req_method = PUT,
                       req_url = url cfg @ js ''/rest/api/3'' @ js ''/issue/'' @ tmpl (issueKey a),
                       req_data = Some (JObj [(js ''fields'', JObj f5)]) \<rparr>]"
      using False
      by (simp add: eq snd_case_result makeJiraRequest_state del: js_simps)
    then show ?thesis using keys by blast
  qed
qed

lemma updateIssue_nothing:
  assumes "summary a = None" "description a = None" "assignee a = None" "priority a = None"
    "labels a = None"
  shows "updateIssue cfg remote a st =
           (Inr (text_result
              ([0x2705] @ js '' Successfully updated issue: **'' @ tmpl (issueKey a)
               @ js ''**\<newline>'' @ js ''URL: '' @ url cfg @ js ''/browse/'' @ tmpl (issueKey a))), st)"
  by (simp add: updateIssue_def Let_def assms)

text \<open>
  C5: an \<open>updateIssue\<close> call that supplies none of summary, description, assignee,
  priority and labels sends no request, leaves the state as it was and returns the
  success text. In general the call sends nothing or a single PUT, and the keys under
  \<open>fields\<close> of that PUT are exactly the arguments the caller supplied with a non-empty
  value (for \<open>labels\<close>: supplied at all), so no field the caller left out is patched.
\<close>

theorem C5_update_only_supplied:
  "(summary a = None \<and> description a = None \<and> assignee a = None \<and> priority a = None \<and>
    labels a = None \<longrightarrow>
      updateIssue cfg remote a st =
        (Inr (text_result
           ([0x2705] @ js '' Successfully updated issue: **'' @ tmpl (issueKey a)
            @ js ''**\<newline>'' @ js ''URL: '' @ url cfg @ js ''/browse/'' @ tmpl (issueKey a))), st)) \<and>
   (sent (snd (updateIssue cfg remote a st)) = sent st \<or>
    (\<exists>F. sent (snd (updateIssue cfg remote a st)) =
           sent st @ [\<lparr> req_method = PUT,
                        req_url = url cfg @ js ''/rest/api/3/issue/'' @ tmpl (issueKey a),
                        req_data = Some (JObj [(js ''fields'', JObj F)]) \<rparr>] \<and>
         (\<forall>k. k \<in> fst ` set F \<longleftrightarrow>
               (k = js ''summary'' \<and> summary a \<noteq> None \<and> summary a \<noteq> Some []) \<or>
               (k = js ''description'' \<and> description a \<noteq> None \<and> description a \<noteq> Some []) \<or>
               (k = js ''assignee'' \<and> assignee a \<noteq> None \<and> assignee a \<noteq> Some []) \<or>
               (k = js ''priority'' \<and> priority a \<noteq> None \<and> priority a \<noteq> Some []) \<or>
               (k = js ''labels'' \<and> labels a \<noteq> None))))"
proof -
  have t: "truthy (opt_val x) \<longleftrightarrow> x \<noteq> None \<and> x \<noteq> Some []" for x
    by (cases x) simp_all
  have u: "url cfg @ js ''/rest/api/3'' @ js ''/issue/'' @ tmpl (issueKey a) =
           url cfg @ js ''/rest/api/3/issue/'' @ tmpl (issueKey a)"
    by simp
  from updateIssue_sent[of cfg remote a st]
  have "sent (snd (updateIssue cfg remote a st)) = sent st \<or>
    (\<exists>F. sent (snd (updateIssue cfg remote a st)) =
           sent st @ [\<lparr> req_method = PUT,
                        req_url = url cfg @ js ''/rest/api/3/issue/'' @ tmpl (issueKey a),
                        req_data = Some (JObj [(js ''fields'', JObj F)]) \<rparr>] \<and>
         (\<forall>k. k \<in> fst ` set F \<longleftrightarrow>
               (k = js ''summary'' \<and> summary a \<noteq> None \<and> summary a \<noteq> Some []) \<or>
               (k = js ''description'' \<and> description a \<noteq> None \<and> description a \<noteq> Some []) \<or>
               (k = js ''assignee'' \<and> assignee a \<noteq> None \<and> assignee a \<noteq> Some []) \<or>
               (k = js ''priority'' \<and> priority a \<noteq> None \<and> priority a \<noteq> Some []) \<or>
               (k = js ''labels'' \<and> labels a \<noteq> None)))"
    unfolding u t by (elim disjE exE conjE) (simp, intro disjI2 exI conjI, assumption, simp)
  then show ?thesis using updateIssue_nothing[of a cfg remote st] by blast
qed

theorem C5_update_only_supplied_witness:
  "updateIssue example_cfg example_remote (no_args \<lparr> issueKey := Some (js ''PROJ-7'') \<rparr>)
     \<lparr> world = (), sent = [] \<rparr> =
   (Inr (text_result
      ([0x2705] @ js '' Successfully updated issue: **PROJ-7**\<newline>''
       @ js ''URL: https://jira.example.com/browse/PROJ-7'')),
    \<lparr> world = (), sent = [] \<rparr>)"
proof -
  let ?a = "no_args \<lparr> issueKey := Some (js ''PROJ-7'') \<rparr>"
  have h: "summary ?a = None \<and> description ?a = None \<and> assignee ?a = None \<and>
           priority ?a = None \<and> labels ?a = None"
    by (simp add: no_args_def)
  from C5_update_only_supplied[of ?a example_cfg example_remote "\<lparr> world = (), sent = [] \<rparr>"] h
  have "updateIssue example_cfg example_remote ?a \<lparr> world = (), sent = [] \<rparr> =
        (Inr (text_result
           ([0x2705] @ js '' Successfully updated issue: **'' @ tmpl (issueKey ?a)
            @ js ''**\<newline>'' @ js ''URL: '' @ url example_cfg @ js ''/browse/''
            @ tmpl (issueKey ?a))), \<lparr> world = (), sent = [] \<rparr>)"
    by blast
  then show ?thesis by (simp add: example_cfg_def no_args_def)
qed

section \<open>getProjectIssues\<close>

text \<open>
  C9, as the specification states it, fails when the status supplied is the empty
  string: it is falsy, so no status clause is added to the query.
\<close>

theorem C9_project_issues_query_counterexample:
  "projectIssuesJql (no_args \<lparr> projectKey := Some (js ''PROJ''), status := Some [] \<rparr>)
     = js ''project = PROJ ORDER BY created DESC'' \<and>
   projectIssuesJql (no_args \<lparr> projectKey := Some (js ''PROJ''), status := Some [] \<rparr>)
     \<noteq> js ''project = PROJ AND status = '' @ [0x22] @ [] @ [0x22] @ js '' ORDER BY created DESC''"
  by (simp add: projectIssuesJql_def no_args_def)

text \<open>
  C9 (amended): the query \<open>getProjectIssues\<close> synthesizes is exactly
  \<open>project = KEY AND status = "STATUS" ORDER BY created DESC\<close> when a non-empty status is
  supplied, and exactly \<open>project = KEY ORDER BY created DESC\<close> when the status is absent
  or empty; for project \<open>PROJ\<close> and status \<open>Done\<close> it is
  \<open>project = PROJ AND status = "Done" ORDER BY created DESC\<close>. The call is the call of
  \<open>searchIssues\<close> with that query and the given \<open>maxResults\<close> (50 when absent).
\<close>

theorem C9_project_issues_query:
  "getProjectIssues cfg remote a st =
     searchIssues cfg remote
       (no_args \<lparr> jql := Some (projectIssuesJql a),
                  maxResults := Some (case maxResults a of None \<Rightarrow> 50 | Some n \<Rightarrow> n) \<rparr>) st \<and>
   (status a = Some s \<and> s \<noteq> [] \<longrightarrow>
      projectIssuesJql a =
        js ''project = '' @ tmpl (projectKey a) @ js '' AND status = '' @ [0x22] @ s @ [0x22]
        @ js '' ORDER BY created DESC'') \<and>
   (status a = None \<or> status a = Some [] \<longrightarrow>
      projectIssuesJql a = js ''project = '' @ tmpl (projectKey a) @ js '' ORDER BY created DESC'') \<and>
   projectIssuesJql (no_args \<lparr> projectKey := Some (js ''PROJ''), status := Some (js ''Done'') \<rparr>)
     = js ''project = PROJ AND status = '' @ [0x22] @ js ''Done'' @ [0x22]
       @ js '' ORDER BY created DESC''"
proof -
  have d: "getProjectIssues cfg remote a st =
     searchIssues cfg remote
       (no_args \<lparr> jql := Some (projectIssuesJql a),
                  maxResults := Some (case maxResults a of None \<Rightarrow> 50 | Some n \<Rightarrow> n) \<rparr>) st"
    unfolding getProjectIssues_def Let_def by (rule refl)
  have p: "projectIssuesJql a =
        js ''project = '' @ tmpl (projectKey a) @ js '' AND status = '' @ [0x22] @ s @ [0x22]
        @ js '' ORDER BY created DESC''" if "status a = Some s" "s \<noteq> []"
    using that by (simp add: projectIssuesJql_def)
  have q: "projectIssuesJql a = js ''project = '' @ tmpl (projectKey a) @ js '' ORDER BY created DESC''"
    if "status a = None \<or> status a = Some []"
    using that by (auto simp add: projectIssuesJql_def)
  have e: "projectIssuesJql
             (no_args \<lparr> projectKey := Some (js ''PROJ''), status := Some (js ''Done'') \<rparr>)
     = js ''project = PROJ AND status = '' @ [0x22] @ js ''Done'' @ [0x22]
       @ js '' ORDER BY created DESC''"
    by (simp add: projectIssuesJql_def no_args_def)
  show ?thesis using d p q e by blast
qed

theorem C9_project_issues_query_witness:
  "status (no_args \<lparr> projectKey := Some (js ''PROJ''), status := Some (js ''Done'') \<rparr>)
     = Some (js ''Done'') \<and> js ''Done'' \<noteq> [] \<and>
   projectIssuesJql (no_args \<lparr> projectKey := Some (js ''PROJ''), status := Some (js ''Done'') \<rparr>)
     = js ''project = PROJ AND status = '' @ [0x22] @ js ''Done'' @ [0x22]
       @ js '' ORDER BY created DESC'' \<and>
   status (no_args \<lparr> projectKey := Some (js ''PROJ'') \<rparr>) = None \<and>
   projectIssuesJql (no_args \<lparr> projectKey := Some (js ''PROJ'') \<rparr>)
     = js ''project = PROJ ORDER BY created DESC'' \<and>
   sent (snd (getProjectIssues example_cfg example_remote
           (no_args \<lparr> projectKey := Some (js ''PROJ''), status := Some (js ''Done'') \<rparr>)
           \<lparr> world = (), sent = [] \<rparr>)) =
     [\<lparr> req_method = GET,
         req_url = js ''https://jira.example.com/rest/api/3/search?jql=project%20%3D%20PROJ%20AND%20status%20%3D%20%22Done%22%20ORDER%20BY%20created%20DESC&maxResults=50&fields=summary,status,assignee,priority,created,updated,description'',
         req_data = None \<rparr>]"
proof -
  let ?a = "no_args \<lparr> projectKey := Some (js ''PROJ''), status := Some (js ''Done'') \<rparr>"
  let ?b = "no_args \<lparr> projectKey := Some (js ''PROJ'') \<rparr>"
  have h1: "status ?a = Some (js ''Done'') \<and> js ''Done'' \<noteq> []"
    by simp
  have h2: "status ?b = None \<or> status ?b = Some []"
    by (simp add: no_args_def)
  have s: "sent (snd (searchIssues example_cfg example_remote
             (no_args \<lparr> jql := Some (js ''project = PROJ AND status = '' @ [0x22] @ js ''Done''
                                       @ [0x22] @ js '' ORDER BY created DESC''),
                        maxResults := Some 50 \<rparr>) \<lparr> world = (), sent = [] \<rparr>)) =
     [\<lparr> req_method = GET,
         req_url = js ''https://jira.example.com/rest/api/3/search?jql=project%20%3D%20PROJ%20AND%20status%20%3D%20%22Done%22%20ORDER%20BY%20created%20DESC&maxResults=50&fields=summary,status,assignee,priority,created,updated,description'',
         req_data = None \<rparr>]"
    by (simp add: searchIssues_def makeJiraRequest_def no_args_def example_cfg_def
          example_remote_def unreserved_def percent_def utf8_def hex_digit_def
          num_to_string_def Let_def)
  from C9_project_issues_query[of example_cfg example_remote ?a "\<lparr> world = (), sent = [] \<rparr>"
         "js ''Done''"] h1
  have a: "getProjectIssues example_cfg example_remote ?a \<lparr> world = (), sent = [] \<rparr> =
     searchIssues example_cfg example_remote
       (no_args \<lparr> jql := Some (projectIssuesJql ?a),
                  maxResults := Some (case maxResults ?a of None \<Rightarrow> 50 | Some n \<Rightarrow> n) \<rparr>)
       \<lparr> world = (), sent = [] \<rparr>"
    and b: "projectIssuesJql ?a =
        js ''project = '' @ tmpl (projectKey ?a) @ js '' AND status = '' @ [0x22] @ js ''Done''
        @ [0x22] @ js '' ORDER BY created DESC''"
    by blast+
  from C9_project_issues_query[of example_cfg example_remote ?b "\<lparr> world = (), sent = [] \<rparr>"] h2
  have c: "projectIssuesJql ?b = js ''project = '' @ tmpl (projectKey ?b)
             @ js '' ORDER BY created DESC''"
    by blast
  have m: "(case maxResults ?a of None \<Rightarrow> 50 | Some n \<Rightarrow> n) = 50"
    by (simp add: no_args_def)
  have s': "sent (snd (getProjectIssues example_cfg example_remote ?a \<lparr> world = (), sent = [] \<rparr>)) =
     [\<lparr> req_method = GET,
         req_url = js ''https://jira.example.com/rest/api/3/search?jql=project%20%3D%20PROJ%20AND%20status%20%3D%20%22Done%22%20ORDER%20BY%20created%20DESC&maxResults=50&fields=summary,status,assignee,priority,created,updated,description'',
         req_data = None \<rparr>]"
    unfolding a b m using s by (simp add: no_args_def)
  have b': "projectIssuesJql ?a = js ''project = PROJ AND status = '' @ [0x22] @ js ''Done''
              @ [0x22] @ js '' ORDER BY created DESC''"
    unfolding b by (simp add: no_args_def)
  have c': "projectIssuesJql ?b = js ''project = PROJ ORDER BY created DESC''"
    unfolding c by (simp add: no_args_def)
  have n: "status ?b = None" by (simp add: no_args_def)
  show ?thesis using h1 b' n c' s' by blast
qed

end
